theory Spec2Isabelle
  imports Complex_Main
begin

section \<open>Numbers, vectors and bounding boxes\<close>

text \<open>
  The service computes with JavaScript numbers. They are idealised here as real numbers:
  rounding is not modelled, and the two places where the code can leave the finite numbers
  (a division by zero in \<open>initialize\<close> and in \<open>centerModel\<close>) are written out as
  explicit branches, since \<open>x / 0 = 0\<close> in HOL.
\<close>

text \<open>
  Modelled from the spec: the three.js classes \<open>Vector3\<close> and \<open>Box3\<close> are a library
  outside the repository. A bounding box "computed" for a model is the axis-aligned box of
  its geometry in world coordinates; \<open>getSize\<close> and \<open>getCenter\<close> of an empty box are the
  zero vector, as in the library.
\<close>

datatype vec3 = Vec3 (vx: real) (vy: real) (vz: real)

definition vzero :: vec3 where
  "vzero = Vec3 0 0 0"

definition vsub :: "vec3 \<Rightarrow> vec3 \<Rightarrow> vec3" where
  "vsub a b = Vec3 (vx a - vx b) (vy a - vy b) (vz a - vz b)"

definition vadd :: "vec3 \<Rightarrow> vec3 \<Rightarrow> vec3" where
  "vadd a b = Vec3 (vx a + vx b) (vy a + vy b) (vz a + vz b)"

definition vmin :: "vec3 \<Rightarrow> vec3 \<Rightarrow> vec3" where
  "vmin a b = Vec3 (min (vx a) (vx b)) (min (vy a) (vy b)) (min (vz a) (vz b))"

definition vmax :: "vec3 \<Rightarrow> vec3 \<Rightarrow> vec3" where
  "vmax a b = Vec3 (max (vx a) (vx b)) (max (vy a) (vy b)) (max (vz a) (vz b))"

definition multiplyScalar :: "vec3 \<Rightarrow> real \<Rightarrow> vec3" where
  "multiplyScalar a k = Vec3 (vx a * k) (vy a * k) (vz a * k)"

definition setScalar :: "real \<Rightarrow> vec3" where
  "setScalar k = Vec3 k k k"

datatype box3 = EmptyBox | Box vec3 vec3

definition expandByPoint :: "box3 \<Rightarrow> vec3 \<Rightarrow> box3" where
  "expandByPoint b p = (case b of EmptyBox \<Rightarrow> Box p p | Box lo hi \<Rightarrow> Box (vmin lo p) (vmax hi p))"

definition setFromPoints :: "vec3 list \<Rightarrow> box3" where
  "setFromPoints ps = foldl expandByPoint EmptyBox ps"

definition getSize :: "box3 \<Rightarrow> vec3" where
  "getSize b = (case b of EmptyBox \<Rightarrow> vzero | Box lo hi \<Rightarrow> vsub hi lo)"

definition getCenter :: "box3 \<Rightarrow> vec3" where
  "getCenter b = (case b of EmptyBox \<Rightarrow> vzero | Box lo hi \<Rightarrow> multiplyScalar (vadd lo hi) 0.5)"

definition maxDimOf :: "vec3 \<Rightarrow> real" where
  "maxDimOf sz = max (vx sz) (max (vy sz) (vz sz))"

section \<open>Scene objects\<close>

text \<open>
  Modelled from the spec: \<open>THREE.Object3D\<close> is a library class. A model is its transform
  (position and scale; the root of a loaded asset carries no rotation), its visibility flag
  and the vertices of its geometry in the model's own frame. \<open>Box3.setFromObject\<close> is the
  box of the vertices moved to world coordinates, \<open>position + scale * v\<close> on each axis.
\<close>

text \<open>
  \<open>NonFinite\<close> is the transform after \<open>centerModel\<close> has divided by a zero extent
  (\<open>scale.set(Infinity, Infinity, Infinity)\<close>): its numbers lie outside the reals and no
  later operation of the model reads them.
\<close>

datatype transform = Transform vec3 vec3 | NonFinite

record object3d =
  transform :: transform
  visible :: bool
  vertices :: "vec3 list"

definition applyTransform :: "vec3 \<Rightarrow> vec3 \<Rightarrow> vec3 \<Rightarrow> vec3" where
  "applyTransform p sc v =
     Vec3 (vx p + vx sc * vx v) (vy p + vy sc * vy v) (vz p + vz sc * vz v)"

definition setFromObject :: "vec3 \<Rightarrow> vec3 \<Rightarrow> vec3 list \<Rightarrow> box3" where
  "setFromObject p sc vs = setFromPoints (map (applyTransform p sc) vs)"

text \<open>The world bounding box of a model, where its transform is finite.\<close>

definition worldBox :: "object3d \<Rightarrow> box3 option" where
  "worldBox m = (case transform m of
       NonFinite \<Rightarrow> None
     | Transform p sc \<Rightarrow> Some (setFromObject p sc (vertices m)))"

section \<open>Animation clips, actions and the mixer\<close>

text \<open>
  Modelled from the spec: \<open>THREE.AnimationClip\<close>, \<open>THREE.AnimationAction\<close> and
  \<open>THREE.AnimationMixer\<close> are library classes. An action is the record of the properties
  the service sets and the claims read: \<open>reset\<close> puts the time back to zero, enables and
  unpauses the action and cancels a scheduled fade; \<open>setEffectiveTimeScale\<close> and
  \<open>setEffectiveWeight\<close> set speed and weight (the weight also cancels a fade);
  \<open>fadeIn\<close>/\<open>fadeOut\<close> schedule a weight ramp from 0 to 1 / from 1 to 0 over the given
  seconds; \<open>play\<close> schedules the action in its mixer and \<open>stop\<close> unschedules and resets
  it. \<open>clipAction\<close> on a clip object the mixer has not seen creates a new action; every
  clip the service passes comes fresh out of a load, so each call creates one.
\<close>

record animationClip =
  name :: string
  duration :: real

datatype loopMode = LoopOnce | LoopRepeat | LoopPingPong

record animationAction =
  clip :: animationClip
  clampWhenFinished :: bool
  loop :: loopMode
  time :: real
  timeScale :: real
  effectiveTimeScale :: real
  weight :: real
  effectiveWeight :: real
  enabled :: bool
  paused :: bool
  fading :: "(real \<times> real \<times> real) option"
  scheduled :: bool

definition newAction :: "animationClip \<Rightarrow> animationAction" where
  "newAction c = \<lparr>clip = c, clampWhenFinished = False, loop = LoopRepeat, time = 0,
     timeScale = 1, effectiveTimeScale = 1, weight = 1, effectiveWeight = 1,
     enabled = True, paused = False, fading = None, scheduled = False\<rparr>"

definition reset :: "animationAction \<Rightarrow> animationAction" where
  "reset a = a\<lparr>paused := False, enabled := True, time := 0, fading := None\<rparr>"

definition setEffectiveTimeScale :: "real \<Rightarrow> animationAction \<Rightarrow> animationAction" where
  "setEffectiveTimeScale ts a =
     a\<lparr>timeScale := ts, effectiveTimeScale := (if paused a then 0 else ts)\<rparr>"

definition setEffectiveWeight :: "real \<Rightarrow> animationAction \<Rightarrow> animationAction" where
  "setEffectiveWeight w a =
     a\<lparr>weight := w, effectiveWeight := (if enabled a then w else 0), fading := None\<rparr>"

definition fadeIn :: "real \<Rightarrow> animationAction \<Rightarrow> animationAction" where
  "fadeIn d a = a\<lparr>fading := Some (d, 0, 1)\<rparr>"

definition fadeOut :: "real \<Rightarrow> animationAction \<Rightarrow> animationAction" where
  "fadeOut d a = a\<lparr>fading := Some (d, 1, 0)\<rparr>"

definition action_play :: "animationAction \<Rightarrow> animationAction" where
  "action_play a = a\<lparr>scheduled := True\<rparr>"

definition action_stop :: "animationAction \<Rightarrow> animationAction" where
  "action_stop a = reset (a\<lparr>scheduled := False\<rparr>)"

text \<open>\<open>isRunning()\<close> of the library: scheduled, enabled, not paused, with a non-zero speed.\<close>

definition isRunning :: "animationAction \<Rightarrow> bool" where
  "isRunning a = (scheduled a \<and> enabled a \<and> \<not> paused a \<and> timeScale a \<noteq> 0)"

record animationMixer =
  mixer_timeScale :: real
  finished_listeners :: nat

definition newMixer :: animationMixer where
  "newMixer = \<lparr>mixer_timeScale = 1, finished_listeners = 0\<rparr>"

section \<open>The state of the ThreeRenderer service\<close>

text \<open>
  The fields of the class. Action objects are shared between the registry \<open>actions\<close> and
  \<open>activeAction\<close>, so they live in a store addressed by handles: the registry is the
  insertion-ordered \<open>Map\<close> from clip names to handles, \<open>activeAction\<close> is a handle, and
  \<open>!==\<close> on actions is inequality of handles. \<open>requests\<close> lists the URLs handed to the
  GLTF loader, oldest first. Lights, orbit controls, the clock and the frame loop are left
  out: no operation below reads them.
\<close>

datatype color = ColorNumber nat | ColorString string

record scene3 =
  background :: color
  models :: nat

record perspectiveCamera =
  aspect :: "real option"

record webGLRenderer =
  renderer_size :: "real \<times> real"

type_synonym handle = nat

record threeRenderer =
  scene :: "scene3 option"
  camera :: "perspectiveCamera option"
  renderer :: "webGLRenderer option"
  currentModel :: "object3d option"
  mixer :: "animationMixer option"
  actions :: "(string \<times> handle) list"
  activeAction :: "handle option"
  store :: "handle \<Rightarrow> animationAction"
  next_handle :: handle
  requests :: "string list"

datatype error =
    NoCharacterModelLoaded
  | NoAnimationsFound
  | LoaderError "string option"
  | TypeError

text \<open>\<open>e.message\<close>: a loader failure may carry no message (a progress event, say).\<close>

definition message :: "error \<Rightarrow> string option" where
  "message e = (case e of
       NoCharacterModelLoaded \<Rightarrow> Some ''No character model loaded''
     | NoAnimationsFound \<Rightarrow> Some ''No animations found in action file''
     | LoaderError m \<Rightarrow> m
     | TypeError \<Rightarrow> Some ''Cannot read properties of undefined'')"

record gltf =
  gltf_scene :: object3d
  animations :: "animationClip list"

text \<open>What a load of an asset comes back with: the environment's answer.\<close>

datatype loaded = LoadFailed "string option" | Loaded gltf

subsection \<open>The registry: a JavaScript Map\<close>

fun map_set :: "string \<Rightarrow> handle \<Rightarrow> (string \<times> handle) list \<Rightarrow> (string \<times> handle) list" where
  "map_set k v [] = [(k, v)]"
| "map_set k v ((k', v') # xs) = (if k' = k then (k', v) # xs else (k', v') # map_set k v xs)"

definition map_get :: "(string \<times> handle) list \<Rightarrow> string \<Rightarrow> handle option" where
  "map_get xs k = map_of xs k"

definition map_has :: "(string \<times> handle) list \<Rightarrow> string \<Rightarrow> bool" where
  "map_has xs k = (map_of xs k \<noteq> None)"

text \<open>\<open>actions.forEach((a) => a.stop())\<close> over the handles of the registry.\<close>

fun stop_each :: "handle list \<Rightarrow> (handle \<Rightarrow> animationAction) \<Rightarrow> (handle \<Rightarrow> animationAction)" where
  "stop_each [] st = st"
| "stop_each (h # hs) st = stop_each hs (st(h := action_stop (st h)))"

text \<open>\<open>mixer.clipAction(clip)\<close> on a freshly loaded clip: a new action object.\<close>

definition clipAction :: "animationClip \<Rightarrow> threeRenderer \<Rightarrow> handle \<times> threeRenderer" where
  "clipAction c s =
     (next_handle s,
      s\<lparr>store := (store s)(next_handle s := newAction c), next_handle := Suc (next_handle s)\<rparr>)"

section \<open>The operations of the service\<close>

subsection \<open>initialize, setBackground, resize, setTimeScale, getClipNames\<close>

text \<open>
  \<open>initialize\<close> builds scene, camera and renderer. The camera's aspect is
  \<open>width / height\<close>; with a zero height it is not a finite number, which is \<open>None\<close>.
\<close>

definition initialize :: "real \<Rightarrow> real \<Rightarrow> threeRenderer \<Rightarrow> threeRenderer" where
  "initialize width height s =
     s\<lparr>scene := Some \<lparr>background = ColorNumber 0xf0f0f0, models = 0\<rparr>,
       camera := Some \<lparr>aspect = (if height = 0 then None else Some (width / height))\<rparr>,
       renderer := Some \<lparr>renderer_size = (width, height)\<rparr>\<rparr>"

definition setBackground :: "color \<Rightarrow> threeRenderer \<Rightarrow> threeRenderer" where
  "setBackground c s = (case scene s of
       None \<Rightarrow> s
     | Some sc \<Rightarrow> s\<lparr>scene := Some (sc\<lparr>background := c\<rparr>)\<rparr>)"

text \<open>The divisor and the aspect ratio that \<open>resize\<close> computes.\<close>

definition resize_divisor :: "real \<Rightarrow> real" where
  "resize_divisor height = max 1 height"

definition resize_aspect :: "real \<Rightarrow> real \<Rightarrow> real" where
  "resize_aspect width height = max (1 / 1000000) (width / resize_divisor height)"

definition resize :: "real \<Rightarrow> real \<Rightarrow> threeRenderer \<Rightarrow> threeRenderer" where
  "resize width height s = (case (renderer s, camera s) of
       (Some r, Some c) \<Rightarrow>
         s\<lparr>camera := Some (c\<lparr>aspect := Some (resize_aspect width height)\<rparr>),
           renderer := Some (r\<lparr>renderer_size := (width, height)\<rparr>)\<rparr>
     | _ \<Rightarrow> s)"

definition setTimeScale :: "real \<Rightarrow> threeRenderer \<Rightarrow> threeRenderer" where
  "setTimeScale speed s = (case mixer s of
       None \<Rightarrow> s
     | Some m \<Rightarrow> s\<lparr>mixer := Some (m\<lparr>mixer_timeScale := speed\<rparr>)\<rparr>)"

definition getClipNames :: "threeRenderer \<Rightarrow> string list" where
  "getClipNames s = map fst (actions s)"

subsection \<open>play and stop\<close>

definition play :: "string \<Rightarrow> real \<Rightarrow> threeRenderer \<Rightarrow> threeRenderer" where
  "play clipName fadeSeconds s = (case map_get (actions s) clipName of
       None \<Rightarrow> s
     | Some next \<Rightarrow>
         let st1 = (case activeAction s of
                      None \<Rightarrow> store s
                    | Some a \<Rightarrow> if a \<noteq> next then (store s)(a := fadeOut fadeSeconds (store s a))
                                else store s);
             act = action_play (fadeIn fadeSeconds (setEffectiveWeight 1
                     (setEffectiveTimeScale 1 (reset (st1 next)))))
         in s\<lparr>store := st1(next := act), activeAction := Some next\<rparr>)"

definition stop :: "threeRenderer \<Rightarrow> threeRenderer" where
  "stop s = (case activeAction s of
       None \<Rightarrow> s
     | Some a \<Rightarrow> s\<lparr>store := (store s)(a := action_stop (store s a)), activeAction := None\<rparr>)"

subsection \<open>disposeCurrentModel and loadModel\<close>

text \<open>
  \<open>disposeCurrentModel\<close> returns at once without a model. With one it stops and clears
  the animation state and then calls \<open>this.scene.remove\<close>, which throws when the scene
  was never created; the state at the throw is returned with the error.
\<close>

definition disposeCurrentModel :: "threeRenderer \<Rightarrow> error option \<times> threeRenderer" where
  "disposeCurrentModel s = (case currentModel s of
       None \<Rightarrow> (None, s)
     | Some m \<Rightarrow>
         let st1 = (case activeAction s of
                      None \<Rightarrow> store s
                    | Some a \<Rightarrow> (store s)(a := action_stop (store s a)));
             s1 = s\<lparr>store := stop_each (map snd (actions s)) st1, activeAction := None,
                    actions := [], mixer := None\<rparr>
         in (case scene s1 of
               None \<Rightarrow> (Some TypeError, s1)
             | Some sc \<Rightarrow>
                 (None, s1\<lparr>scene := Some (sc\<lparr>models := models sc - 1\<rparr>),
                            currentModel := None\<rparr>)))"

text \<open>
  The centring and scaling of a loaded model: \<open>model.position.sub(center)\<close>, then
  \<open>model.scale.setScalar(1.5 / maxDim)\<close> when \<open>maxDim > 0\<close>.
\<close>

definition centerAndScale :: "object3d \<Rightarrow> object3d" where
  "centerAndScale model = (case transform model of
       NonFinite \<Rightarrow> model
     | Transform p sc \<Rightarrow>
         let box = setFromObject p sc (vertices model);
             sz = getSize box;
             center = getCenter box;
             maxDim = maxDimOf sz
         in model\<lparr>transform :=
              Transform (vsub p center) (if maxDim > 0 then setScalar (1.5 / maxDim) else sc)\<rparr>)"

text \<open>The loop over \<open>gltf.animations\<close>: one new action per clip, stored under its name.\<close>

fun register_clips :: "animationClip list \<Rightarrow> threeRenderer \<Rightarrow> threeRenderer" where
  "register_clips [] s = s"
| "register_clips (c # cs) s =
     (let (h, s1) = clipAction c s;
          s2 = s1\<lparr>store := (store s1)(h := (store s1 h)\<lparr>clampWhenFinished := True, loop := LoopOnce\<rparr>)\<rparr>
      in register_clips cs (s2\<lparr>actions := map_set (name c) h (actions s2)\<rparr>))"

text \<open>
  \<open>loadModel url\<close>, with the loader's answer as an argument. No other operation of the
  service runs while the load is pending. \<open>this.scene.add\<close> throws without a scene.
\<close>

definition loadModel :: "string \<Rightarrow> loaded \<Rightarrow> threeRenderer \<Rightarrow> (error + object3d) \<times> threeRenderer" where
  "loadModel url answer s = (case disposeCurrentModel s of
       (Some e, s0) \<Rightarrow> (Inl e, s0)
     | (None, s0) \<Rightarrow>
         let s1 = s0\<lparr>requests := requests s0 @ [url]\<rparr> in
         (case answer of
            LoadFailed m \<Rightarrow> (Inl (LoaderError m), s1)
          | Loaded g \<Rightarrow>
              let model = centerAndScale (gltf_scene g);
                  s2 = s1\<lparr>actions := [], mixer := None\<rparr>;
                  s3 = (if animations g \<noteq> []
                        then register_clips (animations g) (s2\<lparr>mixer := Some newMixer\<rparr>)
                        else s2)
              in (case scene s3 of
                    None \<Rightarrow> (Inl TypeError, s3)
                  | Some sc \<Rightarrow>
                      (Inr model, s3\<lparr>scene := Some (sc\<lparr>models := Suc (models sc)\<rparr>),
                                     currentModel := Some model\<rparr>))))"

subsection \<open>centerModel\<close>

text \<open>
  The position is reset, the box is taken, the position is set from the box, and the scale
  is replaced when the largest extent is above 3 or below 1. A largest extent of 0 gives
  the scale \<open>1 / 0\<close>, which is \<open>Infinity\<close> in JavaScript: the transform is \<open>NonFinite\<close> then.
\<close>

definition centerModel :: "threeRenderer \<Rightarrow> threeRenderer" where
  "centerModel s = (case currentModel s of
       None \<Rightarrow> s
     | Some m \<Rightarrow>
         (case transform m of
            NonFinite \<Rightarrow> s
          | Transform p sc \<Rightarrow>
              let box = setFromObject vzero sc (vertices m);
                  center = getCenter box;
                  sz = getSize box;
                  pos = Vec3 (- vx center) (- vy center + vy sz * 0.5) (- vz center);
                  maxDim = maxDimOf sz;
                  t = (if maxDim > 3 then Transform pos (setScalar (3 / maxDim))
                       else if maxDim < 1
                         then (if maxDim = 0 then NonFinite
                               else Transform pos (setScalar (1 / maxDim)))
                       else Transform pos sc)
              in s\<lparr>currentModel := Some (m\<lparr>transform := t\<rparr>)\<rparr>))"

subsection \<open>playAnimationForExistingModel\<close>

definition startsWith :: "string \<Rightarrow> string \<Rightarrow> bool" where
  "startsWith str prefix = (take (length prefix) str = prefix)"

definition fixResourcePath :: "string \<Rightarrow> string" where
  "fixResourcePath actionUrl =
     (if startsWith actionUrl ''http'' then actionUrl
      else if startsWith actionUrl ''/'' then drop 1 actionUrl
      else actionUrl)"

text \<open>
  The function awaits the loader in its middle, and the frame loop and other calls run
  meanwhile. It is therefore two steps: \<open>pafem_begin\<close> runs up to the \<open>await\<close> and
  returns what the rest of the function keeps in its local variables (\<open>currentPosition\<close>
  and \<open>currentScale\<close>, the saved transform, and \<open>fixedUrl\<close>); \<open>pafem_resume\<close> runs
  from the loader's answer to the end, on whatever state the service is in by then.
\<close>

record pendingAction =
  saved :: transform
  fixedUrl :: string

definition pafem_begin ::
  "string \<Rightarrow> real \<Rightarrow> threeRenderer \<Rightarrow> error + (pendingAction \<times> threeRenderer)" where
  "pafem_begin actionUrl fadeSeconds s = (case currentModel s of
       None \<Rightarrow> Inl NoCharacterModelLoaded
     | Some m \<Rightarrow>
         Inr (\<lparr>saved = transform m, fixedUrl = fixResourcePath actionUrl\<rparr>,
              s\<lparr>requests := requests s @ [fixResourcePath actionUrl]\<rparr>))"

text \<open>
  The \<open>catch\<close> block: the model is made visible and, when \<open>position.y\<close> is falsy,
  centred again. For a \<open>NonFinite\<close> transform either branch leaves it \<open>NonFinite\<close>.
\<close>

definition pafem_catch :: "error \<Rightarrow> threeRenderer \<Rightarrow> (error + unit) \<times> threeRenderer" where
  "pafem_catch e s = (Inl e, (case currentModel s of
       None \<Rightarrow> s
     | Some m \<Rightarrow>
         let s1 = s\<lparr>currentModel := Some (m\<lparr>visible := True\<rparr>)\<rparr> in
         (case transform m of
            NonFinite \<Rightarrow> s1
          | Transform p sc \<Rightarrow> if vy p = 0 then centerModel s1 else s1)))"

text \<open>
  Without a current model at resumption the code throws a \<open>TypeError\<close>: in \<open>clipAction\<close>
  when the mixer was just created on the missing model, otherwise at
  \<open>this.currentModel.position.copy\<close>. The argument \<open>fadeSeconds\<close> is never read.
\<close>

definition pafem_resume ::
  "pendingAction \<Rightarrow> real \<Rightarrow> loaded \<Rightarrow> threeRenderer \<Rightarrow> (error + unit) \<times> threeRenderer" where
  "pafem_resume k fadeSeconds answer s = (case answer of
       LoadFailed m \<Rightarrow> pafem_catch (LoaderError m) s
     | Loaded g \<Rightarrow>
         (case animations g of
            [] \<Rightarrow> pafem_catch NoAnimationsFound s
          | c # cs \<Rightarrow>
              let fresh_mixer = (mixer s = None);
                  s1 = (if fresh_mixer then s\<lparr>mixer := Some newMixer\<rparr> else s);
                  s2 = s1\<lparr>store := stop_each (map snd (actions s1)) (store s1)\<rparr>;
                  s3 = (case activeAction s2 of
                          None \<Rightarrow> s2
                        | Some a \<Rightarrow> s2\<lparr>store := (store s2)(a := action_stop (store s2 a)),
                                       activeAction := None\<rparr>)
              in if fresh_mixer \<and> currentModel s3 = None then pafem_catch TypeError s3
                 else
                   let (h, s4) = clipAction c s3;
                       act = action_play (setEffectiveWeight 1 (setEffectiveTimeScale 0.7
                               (reset ((store s4 h)\<lparr>clampWhenFinished := True, loop := LoopOnce\<rparr>))));
                       s5 = s4\<lparr>store := (store s4)(h := act), activeAction := Some h\<rparr>
                   in (case currentModel s5 of
                         None \<Rightarrow> pafem_catch TypeError s5
                       | Some m \<Rightarrow>
                           let s6 = s5\<lparr>currentModel := Some (m\<lparr>transform := saved k\<rparr>)\<rparr>;
                               s7 = (if \<not> map_has (actions s6) (name c)
                                     then s6\<lparr>actions := map_set (name c) h (actions s6)\<rparr>
                                     else s6);
                               s8 = s7\<lparr>mixer := map_option
                                      (\<lambda>mx. mx\<lparr>finished_listeners := Suc (finished_listeners mx)\<rparr>)
                                      (mixer s7)\<rparr>
                           in (Inr (), s8))))"

text \<open>The whole call when nothing else touches the service during the load.\<close>

definition playAnimationForExistingModel ::
  "string \<Rightarrow> real \<Rightarrow> loaded \<Rightarrow> threeRenderer \<Rightarrow> (error + unit) \<times> threeRenderer" where
  "playAnimationForExistingModel actionUrl fadeSeconds answer s =
     (case pafem_begin actionUrl fadeSeconds s of
        Inl e \<Rightarrow> (Inl e, s)
      | Inr (k, s1) \<Rightarrow> pafem_resume k fadeSeconds answer s1)"

section \<open>The home page\<close>

record aslSign =
  sign_id :: string
  sign_label :: string
  description :: "string option"
  thumbUrl :: "string option"


record homePage =
  listName :: "string list"
  selectedSign :: "aslSign option"
  loading :: bool
  page_error :: "string option"
  characterLoaded :: bool
  isPlaying :: bool

definition initial_page :: homePage where
  "initial_page = \<lparr>listName = [], selectedSign = None, loading = True, page_error = None,
     characterLoaded = False, isPlaying = False\<rparr>"

text \<open>
  The page, the service it was injected with, and the pending \<open>setTimeout\<close> callbacks of
  the page. The page sets one kind of timer only (\<open>isPlaying = false\<close>), so a timer is
  the number of milliseconds left until it fires.
\<close>

record app =
  page :: homePage
  three :: threeRenderer
  timers :: "nat list"

definition elapse :: "nat \<Rightarrow> app \<Rightarrow> app" where
  "elapse ms a =
     a\<lparr>timers := map (\<lambda>t. t - ms) (filter (\<lambda>t. ms < t) (timers a)),
       page := (if filter (\<lambda>t. t \<le> ms) (timers a) = [] then page a
                else (page a)\<lparr>isPlaying := False\<rparr>)\<rparr>"

record viewport =
  clientWidth :: real
  parentClientWidth :: "real option"
  innerWidth :: real
  clientHeight :: real
  innerHeight :: real

definition math_round :: "real \<Rightarrow> real" where
  "math_round v = of_int \<lfloor>v + 1 / 2\<rfloor>"

definition canvas_width :: "viewport \<Rightarrow> real" where
  "canvas_width vp =
     (if clientWidth vp \<noteq> 0 then clientWidth vp
      else (case parentClientWidth vp of
              Some w \<Rightarrow> if w \<noteq> 0 then w else innerWidth vp
            | None \<Rightarrow> innerWidth vp))"

definition canvas_height :: "viewport \<Rightarrow> real" where
  "canvas_height vp =
     (if clientHeight vp \<noteq> 0 then clientHeight vp else math_round (innerHeight vp * 0.5))"

definition modelPath :: string where
  "modelPath = ''assets/aslkidanimation/models/lisa.glb''"

definition ngAfterViewInit :: "viewport \<Rightarrow> loaded \<Rightarrow> app \<Rightarrow> app" where
  "ngAfterViewInit vp answer a =
     (let t1 = setBackground (ColorString ''#f8f8f8'')
                 (initialize (canvas_width vp) (canvas_height vp) (three a))
      in case loadModel modelPath answer t1 of
           (Inr model, t2) \<Rightarrow>
             let t3 = centerModel t2 in
             a\<lparr>three := t3,
               page := (page a)\<lparr>listName := getClipNames t3, characterLoaded := True,
                                 loading := False\<rparr>\<rparr>
         | (Inl e, t2) \<Rightarrow>
             a\<lparr>three := t2,
               page := (page a)\<lparr>page_error :=
                           Some (case message e of
                                   Some m \<Rightarrow> if m \<noteq> [] then m
                                             else ''Failed to load character model''
                                 | None \<Rightarrow> ''Failed to load character model''),
                         loading := False\<rparr>\<rparr>)"

definition playEmbeddedAnimation :: "string \<Rightarrow> app \<Rightarrow> app" where
  "playEmbeddedAnimation clipName a =
     (if \<not> characterLoaded (page a) then a else a\<lparr>three := play clipName 0.3 (three a)\<rparr>)"

definition actionPath :: "aslSign \<Rightarrow> string" where
  "actionPath sign = ''assets/aslkidanimation/actions/'' @ sign_id sign @ ''.glb''"

definition playSign_failed :: "aslSign \<Rightarrow> homePage \<Rightarrow> homePage" where
  "playSign_failed sign pg =
     pg\<lparr>page_error := Some (''Failed to play sign: '' @ sign_id sign), isPlaying := False\<rparr>"

text \<open>
  \<open>playSign\<close> in two steps, like the call it awaits. \<open>playSign_begin\<close> returns the
  continuation (the sign and the pending action) when a load was started, and \<open>None\<close>
  when the function has already returned.
\<close>

definition playSign_begin :: "aslSign \<Rightarrow> app \<Rightarrow> app \<times> (aslSign \<times> pendingAction) option" where
  "playSign_begin sign a =
     (if \<not> characterLoaded (page a) \<or> isPlaying (page a) then (a, None)
      else
        let pg = (page a)\<lparr>isPlaying := True, page_error := None, selectedSign := Some sign\<rparr>
        in case pafem_begin (actionPath sign) 0.3 (three a) of
             Inl e \<Rightarrow> (a\<lparr>page := playSign_failed sign pg\<rparr>, None)
           | Inr (k, t) \<Rightarrow> (a\<lparr>page := pg, three := t\<rparr>, Some (sign, k)))"

definition playSign_resume :: "aslSign \<times> pendingAction \<Rightarrow> loaded \<Rightarrow> app \<Rightarrow> app" where
  "playSign_resume sk answer a =
     (case pafem_resume (snd sk) 0.3 answer (three a) of
        (Inl e, t) \<Rightarrow> a\<lparr>three := t, page := playSign_failed (fst sk) (page a)\<rparr>
      | (Inr u, t) \<Rightarrow> a\<lparr>three := t, timers := timers a @ [4000]\<rparr>)"

definition playSign :: "aslSign \<Rightarrow> loaded \<Rightarrow> app \<Rightarrow> app" where
  "playSign sign answer a = (case playSign_begin sign a of
       (a1, None) \<Rightarrow> a1
     | (a1, Some sk) \<Rightarrow> playSign_resume sk answer a1)"

definition onResize :: "viewport \<Rightarrow> app \<Rightarrow> app" where
  "onResize vp a = a\<lparr>three := resize (canvas_width vp) (canvas_height vp) (three a)\<rparr>"

section \<open>Example assets and states\<close>

text \<open>
  The service as its constructor leaves it (no scene, no model, an empty registry), and a
  few assets: a box-shaped character with corners at the origin and at \<open>(d, d, d)\<close>, with
  an identity root transform as the GLTF loader builds it, and action files with one clip.
\<close>

definition fresh_service :: threeRenderer where
  "fresh_service = \<lparr>scene = None, camera = None, renderer = None, currentModel = None,
     mixer = None, actions = [], activeAction = None,
     store = (\<lambda>h. newAction \<lparr>name = [], duration = 0\<rparr>), next_handle = 0, requests = []\<rparr>"

definition cube :: "real \<Rightarrow> object3d" where
  "cube d = \<lparr>transform = Transform vzero (setScalar 1), visible = True,
     vertices = [Vec3 0 0 0, Vec3 d d d]\<rparr>"

definition idle_clip :: animationClip where
  "idle_clip = \<lparr>name = ''Idle'', duration = 2\<rparr>"

definition character_asset :: gltf where
  "character_asset = \<lparr>gltf_scene = cube 3, animations = [idle_clip]\<rparr>"

definition twin_clip_asset :: gltf where
  "twin_clip_asset = \<lparr>gltf_scene = cube 3,
     animations = [idle_clip, \<lparr>name = ''Idle'', duration = 5\<rparr>]\<rparr>"

definition action_asset :: "string \<Rightarrow> gltf" where
  "action_asset clipName = \<lparr>gltf_scene = \<lparr>transform = Transform vzero (setScalar 1),
       visible = True, vertices = []\<rparr>,
     animations = [\<lparr>name = clipName, duration = 3\<rparr>]\<rparr>"

definition ready_service :: threeRenderer where
  "ready_service = snd (loadModel modelPath (Loaded character_asset) (initialize 800 600 fresh_service))"

definition ball_sign :: aslSign where
  "ball_sign = \<lparr>sign_id = ''Ball'', sign_label = ''Ball'',
     description = Some ''Sign for showing Ball'', thumbUrl = None\<rparr>"

definition afraid_sign :: aslSign where
  "afraid_sign = \<lparr>sign_id = ''Afraid'', sign_label = ''Afraid'',
     description = Some ''Sign for showing fear or being scared'', thumbUrl = None\<rparr>"

definition big_viewport :: viewport where
  "big_viewport = \<lparr>clientWidth = 800, parentClientWidth = None, innerWidth = 1024,
     clientHeight = 600, innerHeight = 768\<rparr>"

definition fresh_app :: app where
  "fresh_app = \<lparr>page = initial_page, three = fresh_service, timers = []\<rparr>"

text \<open>
  A sign being played on the loaded character: what \<open>pafem_begin\<close> saved, and the
  service as the load answers, after the frame loop has moved and scaled the model.
\<close>

definition ball_pending :: pendingAction where
  "ball_pending = \<lparr>saved = Transform (Vec3 (- (3 / 2)) (- (3 / 2)) (- (3 / 2)))
       (Vec3 (1 / 2) (1 / 2) (1 / 2)), fixedUrl = actionPath ball_sign\<rparr>"

definition drifted_service :: threeRenderer where
  "drifted_service = ready_service\<lparr>requests := requests ready_service @ [actionPath ball_sign],
     currentModel := Some \<lparr>transform = Transform (Vec3 0 5 0) (setScalar 2), visible = True,
       vertices = [Vec3 0 0 0, Vec3 3 3 3]\<rparr>\<rparr>"


definition ready_app :: app where
  "ready_app = ngAfterViewInit big_viewport (Loaded character_asset) fresh_app"

text \<open>
  The service after the character with its embedded clip \<open>Idle\<close> was loaded and an
  action file whose single clip is also named \<open>Idle\<close> was played on it.
\<close>

definition aliased_service :: threeRenderer where
  "aliased_service = snd (playAnimationForExistingModel (actionPath ball_sign) 0.3
     (Loaded (action_asset ''Idle'')) ready_service)"


section \<open>Predicates of the claims\<close>

text \<open>
  What a resolved \<open>playAnimationForExistingModel\<close> does to the actions, from the state
  \<open>s\<close> in which its second half starts to the state \<open>t\<close> it ends in: the action it
  creates is the active one and is running; every action that the registry or
  \<open>activeAction\<close> held in \<open>s\<close> is no longer scheduled in the mixer; every other action
  created before is as it was.
\<close>

definition stops_held_plays_new :: "threeRenderer \<Rightarrow> threeRenderer \<Rightarrow> bool" where
  "stops_held_plays_new s t =
     (activeAction t = Some (next_handle s)
      \<and> next_handle t = Suc (next_handle s)
      \<and> isRunning (store t (next_handle s))
      \<and> (\<forall>g < next_handle s.
            if g \<in> set (map snd (actions s)) \<or> activeAction s = Some g
            then \<not> scheduled (store t g)
            else store t g = store s g))"

text \<open>
  No action is running that neither the registry nor \<open>activeAction\<close> holds.
\<close>

definition only_held_running :: "threeRenderer \<Rightarrow> bool" where
  "only_held_running s =
     (\<forall>g < next_handle s.
        isRunning (store s g) \<longrightarrow> g \<in> set (map snd (actions s)) \<or> activeAction s = Some g)"


text \<open>
  Every handle the service holds refers to an action object that was created: handles are
  object references in the source, so this holds in every state of the running program.
\<close>

definition handles_allocated :: "threeRenderer \<Rightarrow> bool" where
  "handles_allocated s =
     ((\<forall>h \<in> set (map snd (actions s)). h < next_handle s)
      \<and> (case activeAction s of None \<Rightarrow> True | Some a \<Rightarrow> a < next_handle s))"

text \<open>
  The largest extent of a model's bounding box in the world, at its current scale, where
  the transform is finite.
\<close>

definition largest_extent :: "object3d \<Rightarrow> real option" where
  "largest_extent m = map_option (\<lambda>b. maxDimOf (getSize b)) (worldBox m)"

text \<open>The image of a box under a map of its corners; vectors without a negative component.\<close>

definition box_map :: "(vec3 \<Rightarrow> vec3) \<Rightarrow> box3 \<Rightarrow> box3" where
  "box_map f b = (case b of EmptyBox \<Rightarrow> EmptyBox | Box lo hi \<Rightarrow> Box (f lo) (f hi))"

definition nonneg :: "vec3 \<Rightarrow> bool" where
  "nonneg v = (0 \<le> vx v \<and> 0 \<le> vy v \<and> 0 \<le> vz v)"

text \<open>
  The entries of the registry are sound from handle \<open>lo\<close> on: each handle was created at
  or after \<open>lo\<close>, is set to clamp and to play once, and stands for a clip of \<open>C\<close> whose
  name is the entry's key.
\<close>

definition entries_ok :: "handle \<Rightarrow> animationClip set \<Rightarrow> threeRenderer \<Rightarrow> bool" where
  "entries_ok lo C s =
     (\<forall>(n, h) \<in> set (actions s).
        lo \<le> h \<and> h < next_handle s \<and> clampWhenFinished (store s h)
        \<and> loop (store s h) = LoopOnce \<and> clip (store s h) \<in> C \<and> name (clip (store s h)) = n)"

text \<open>One round of the loop of \<open>register_clips\<close>.\<close>

definition register_clip :: "animationClip \<Rightarrow> threeRenderer \<Rightarrow> threeRenderer" where
  "register_clip c s =
     (let (h, s1) = clipAction c s;
          s2 = s1\<lparr>store := (store s1)(h := (store s1 h)\<lparr>clampWhenFinished := True, loop := LoopOnce\<rparr>)\<rparr>
      in s2\<lparr>actions := map_set (name c) h (actions s2)\<rparr>)"

section \<open>Properties\<close>

subsection \<open>Auxiliary facts\<close>

lemmas vec_defs = vzero_def vsub_def vadd_def vmin_def vmax_def multiplyScalar_def setScalar_def
lemmas box_defs = expandByPoint_def setFromPoints_def getSize_def getCenter_def maxDimOf_def
  applyTransform_def setFromObject_def worldBox_def
lemmas action_defs = newAction_def reset_def setEffectiveTimeScale_def setEffectiveWeight_def
  fadeIn_def fadeOut_def action_play_def action_stop_def isRunning_def
lemmas example_defs = fresh_service_def cube_def idle_clip_def character_asset_def
  twin_clip_asset_def action_asset_def ball_sign_def big_viewport_def fresh_app_def
  initial_page_def modelPath_def




lemma map_set_handles:
  "snd ` set (map_set k v xs) \<subseteq> insert v (snd ` set xs)"
  by (induction xs) (auto split: if_splits, force+)

lemma pafem_catch_fst [simp]: "fst (pafem_catch e s) = Inl e"
  by (simp add: pafem_catch_def)

lemma pafem_resume_resolved_iff:
  "fst (pafem_resume k f answer s) = Inr u \<longleftrightarrow>
     (\<exists>g c cs m. answer = Loaded g \<and> animations g = c # cs \<and> currentModel s = Some m)"
  by (cases answer)
     (auto simp: pafem_resume_def Let_def clipAction_def split: list.splits option.splits)

lemma pafem_resume_state:
  assumes "currentModel s = Some m" and "animations g = c # cs"
  shows "pafem_resume k f (Loaded g) s =
     (Inr (),
      s\<lparr>mixer := Some ((case mixer s of None \<Rightarrow> newMixer | Some mx \<Rightarrow> mx)
                   \<lparr>finished_listeners := Suc (finished_listeners (case mixer s of None \<Rightarrow> newMixer | Some mx \<Rightarrow> mx))\<rparr>),
        store := (case activeAction s of
                    None \<Rightarrow> stop_each (map snd (actions s)) (store s)
                  | Some a \<Rightarrow> (stop_each (map snd (actions s)) (store s))
                               (a := action_stop (stop_each (map snd (actions s)) (store s) a)))
                 (next_handle s := action_play (setEffectiveWeight 1 (setEffectiveTimeScale 0.7
                     (reset ((newAction c)\<lparr>clampWhenFinished := True, loop := LoopOnce\<rparr>))))),
        activeAction := Some (next_handle s),
        next_handle := Suc (next_handle s),
        currentModel := Some (m\<lparr>transform := saved k\<rparr>),
        actions := (if map_has (actions s) (name c) then actions s
                    else map_set (name c) (next_handle s) (actions s))\<rparr>)"
  using assms
  by (auto simp: pafem_resume_def Let_def clipAction_def split: option.splits)

lemma ready_service_fields:
  "actions ready_service = [(''Idle'', 0)]"
  "activeAction ready_service = None"
  "next_handle ready_service = 1"
  "mixer ready_service = Some newMixer"
  "currentModel ready_service = Some \<lparr>transform = Transform (Vec3 (- (3 / 2)) (- (3 / 2)) (- (3 / 2))) (Vec3 (1 / 2) (1 / 2) (1 / 2)),
       visible = True, vertices = [Vec3 0 0 0, Vec3 3 3 3]\<rparr>"
  "store ready_service 0 = (newAction idle_clip)\<lparr>clampWhenFinished := True, loop := LoopOnce\<rparr>"
  "requests ready_service = [modelPath]"
  "scene ready_service = Some \<lparr>background = ColorNumber 0xf0f0f0, models = 1\<rparr>"
  by (simp_all add: ready_service_def loadModel_def initialize_def disposeCurrentModel_def
        centerAndScale_def clipAction_def Let_def vec_defs box_defs example_defs newMixer_def)

lemma fixResourcePath_actionPath: "fixResourcePath (actionPath sign) = actionPath sign"
  by (simp add: fixResourcePath_def actionPath_def startsWith_def)

lemma ready_app_fields:
  "characterLoaded (page ready_app)"
  "\<not> isPlaying (page ready_app)"
  "\<not> loading (page ready_app)"
  "listName (page ready_app) = [''Idle'']"
  "timers ready_app = []"
  "currentModel (three ready_app) =
     Some \<lparr>transform = Transform (Vec3 (- (3 / 4)) 0 (- (3 / 4))) (Vec3 (1 / 2) (1 / 2) (1 / 2)),
       visible = True, vertices = [Vec3 0 0 0, Vec3 3 3 3]\<rparr>"
  "actions (three ready_app) = [(''Idle'', 0)]"
  "activeAction (three ready_app) = None"
  "next_handle (three ready_app) = 1"
  "requests (three ready_app) = [modelPath]"
  by (simp_all add: ready_app_def ngAfterViewInit_def loadModel_def initialize_def
        setBackground_def disposeCurrentModel_def centerModel_def getClipNames_def
        canvas_width_def canvas_height_def
        centerAndScale_def clipAction_def Let_def vec_defs box_defs example_defs newMixer_def)


lemma pafem_resume_ignores_fade:
  "pafem_resume k f answer s = pafem_resume k f' answer s"
  by (simp add: pafem_resume_def)


lemma map_get_handle_member:
  "map_get xs n = Some h \<Longrightarrow> h \<in> set (map snd xs)"
  by (auto simp: map_get_def dest!: map_of_SomeD intro: rev_image_eqI)


lemma aliased_service_fields:
  "actions aliased_service = [(''Idle'', 0)]"
  "activeAction aliased_service = Some 1"
  "next_handle aliased_service = 2"
  "store aliased_service 1 = action_play (setEffectiveWeight 1 (setEffectiveTimeScale 0.7
     (reset ((newAction \<lparr>name = ''Idle'', duration = 3\<rparr>)\<lparr>clampWhenFinished := True, loop := LoopOnce\<rparr>))))"
  "store aliased_service 0 = action_stop ((newAction idle_clip)\<lparr>clampWhenFinished := True, loop := LoopOnce\<rparr>)"
proof -
  have m: "currentModel ready_service = Some \<lparr>transform = Transform (Vec3 (- (3 / 2)) (- (3 / 2)) (- (3 / 2))) (Vec3 (1 / 2) (1 / 2) (1 / 2)),
       visible = True, vertices = [Vec3 0 0 0, Vec3 3 3 3]\<rparr>"
    by (simp add: ready_service_fields)
  have a: "animations (action_asset ''Idle'') = [\<lparr>name = ''Idle'', duration = 3\<rparr>]"
    by (simp add: action_asset_def)
  let ?s = "ready_service\<lparr>requests := requests ready_service @ [actionPath ball_sign]\<rparr>"
  let ?k = "\<lparr>saved = Transform (Vec3 (- (3 / 2)) (- (3 / 2)) (- (3 / 2)))
       (Vec3 (1 / 2) (1 / 2) (1 / 2)), fixedUrl = actionPath ball_sign\<rparr>"
  have m': "currentModel ?s = Some \<lparr>transform = Transform (Vec3 (- (3 / 2)) (- (3 / 2)) (- (3 / 2))) (Vec3 (1 / 2) (1 / 2) (1 / 2)),
       visible = True, vertices = [Vec3 0 0 0, Vec3 3 3 3]\<rparr>"
    using m by simp
  have al: "aliased_service = snd (pafem_resume ?k (3 / 10) (Loaded (action_asset ''Idle'')) ?s)"
    by (simp add: aliased_service_def playAnimationForExistingModel_def pafem_begin_def
          ready_service_fields fixResourcePath_actionPath)
  show "actions aliased_service = [(''Idle'', 0)]"
    "activeAction aliased_service = Some 1"
    "next_handle aliased_service = 2"
    "store aliased_service 1 = action_play (setEffectiveWeight 1 (setEffectiveTimeScale 0.7
     (reset ((newAction \<lparr>name = ''Idle'', duration = 3\<rparr>)\<lparr>clampWhenFinished := True, loop := LoopOnce\<rparr>))))"
    "store aliased_service 0 = action_stop ((newAction idle_clip)\<lparr>clampWhenFinished := True, loop := LoopOnce\<rparr>)"
    unfolding al pafem_resume_state [OF m' a]
    by (simp_all add: ready_service_fields map_has_def)
qed


lemma stops_held_requests [simp]:
  "stops_held_plays_new (s\<lparr>requests := r\<rparr>) t = stops_held_plays_new s t"
  by (simp add: stops_held_plays_new_def)




lemma only_held_requests [simp]:
  "only_held_running (s\<lparr>requests := r\<rparr>) = only_held_running s"
  by (simp add: only_held_running_def)









subsection \<open>Playing a sign\<close>








text \<open>
  C4. When \<open>playAnimationForExistingModel\<close> resolves, the first clip of the loaded asset
  is the active animation and is playing from time 0 at (effective) time scale 0.7 with
  (effective) weight 1, set to play once and to clamp when finished, with no fade scheduled;
  the argument \<open>fadeSeconds\<close> has no influence (\<open>f'\<close> in place of \<open>f\<close> gives the same
  result). The current model's position and scale after the call are those captured before
  the load (of the model \<open>m0\<close> present when the call began), whatever state \<open>s\<close> the
  service is in when the load answers.
\<close>

theorem pafem_resolved_plays_first_clip:
  assumes "pafem_begin url f s0 = Inr (k, s1)"
      and "pafem_resume k f answer s = (Inr u, t)"
  shows "\<exists>g c cs h m0.
           answer = Loaded g \<and> animations g = c # cs
         \<and> activeAction t = Some h
         \<and> clip (store t h) = c
         \<and> isRunning (store t h)
         \<and> time (store t h) = 0
         \<and> timeScale (store t h) = 7 / 10
         \<and> effectiveTimeScale (store t h) = 7 / 10
         \<and> weight (store t h) = 1
         \<and> effectiveWeight (store t h) = 1
         \<and> loop (store t h) = LoopOnce
         \<and> clampWhenFinished (store t h)
         \<and> fading (store t h) = None
         \<and> pafem_resume k f' answer s = (Inr u, t)
         \<and> currentModel s0 = Some m0
         \<and> map_option transform (currentModel t) = Some (transform m0)"
proof -
  from assms(2) have "fst (pafem_resume k f answer s) = Inr u" by simp
  then obtain g c cs m where a: "answer = Loaded g" "animations g = c # cs" "currentModel s = Some m"
    by (auto simp: pafem_resume_resolved_iff)
  from assms(1) obtain m0 where b: "currentModel s0 = Some m0" "saved k = transform m0"
    by (auto simp: pafem_begin_def split: option.splits)
  have t: "t = snd (pafem_resume k f (Loaded g) s)"
    using assms(2) by (simp add: a)
  have same: "pafem_resume k f' answer s = (Inr u, t)"
    using assms(2) pafem_resume_ignores_fade [of k f' answer s f] by simp
  have "activeAction t = Some (next_handle s)"
    and "store t (next_handle s) = action_play (setEffectiveWeight 1 (setEffectiveTimeScale 0.7
           (reset ((newAction c)\<lparr>clampWhenFinished := True, loop := LoopOnce\<rparr>))))"
    and "map_option transform (currentModel t) = Some (transform m0)"
    unfolding t pafem_resume_state [OF a(3) a(2)] by (simp_all add: b)
  with a b same show ?thesis
    by (simp add: action_defs)
qed


theorem pafem_resolved_plays_first_clip_witness:
  "pafem_begin (actionPath ball_sign) (3 / 10) ready_service
     = Inr (ball_pending, ready_service\<lparr>requests := requests ready_service @ [actionPath ball_sign]\<rparr>)
   \<and> fst (pafem_resume ball_pending (3 / 10) (Loaded (action_asset ''BallSign'')) drifted_service) = Inr ()
   \<and> map_option transform (currentModel drifted_service)
       = Some (Transform (Vec3 0 5 0) (Vec3 2 2 2))
   \<and> map_option transform (currentModel (snd (pafem_resume ball_pending (3 / 10)
         (Loaded (action_asset ''BallSign'')) drifted_service)))
       = Some (Transform (Vec3 (- (3 / 2)) (- (3 / 2)) (- (3 / 2))) (Vec3 (1 / 2) (1 / 2) (1 / 2)))
   \<and> (\<exists>h. activeAction (snd (pafem_resume ball_pending (3 / 10)
              (Loaded (action_asset ''BallSign'')) drifted_service)) = Some h
          \<and> effectiveTimeScale (store (snd (pafem_resume ball_pending (3 / 10)
              (Loaded (action_asset ''BallSign'')) drifted_service)) h) = 7 / 10
          \<and> name (clip (store (snd (pafem_resume ball_pending (3 / 10)
              (Loaded (action_asset ''BallSign'')) drifted_service)) h)) = ''BallSign'')"
proof -
  let ?t = "snd (pafem_resume ball_pending (3 / 10) (Loaded (action_asset ''BallSign'')) drifted_service)"
  have b: "pafem_begin (actionPath ball_sign) (3 / 10) ready_service
     = Inr (ball_pending, ready_service\<lparr>requests := requests ready_service @ [actionPath ball_sign]\<rparr>)"
    by (simp add: pafem_begin_def ready_service_fields ball_pending_def fixResourcePath_actionPath)
  have ok: "fst (pafem_resume ball_pending (3 / 10) (Loaded (action_asset ''BallSign'')) drifted_service) = Inr ()"
    by (simp add: pafem_resume_resolved_iff drifted_service_def action_asset_def)
  then have r: "pafem_resume ball_pending (3 / 10) (Loaded (action_asset ''BallSign'')) drifted_service
      = (Inr (), ?t)"
    by (simp add: prod_eq_iff)
  have d: "map_option transform (currentModel drifted_service)
       = Some (Transform (Vec3 0 5 0) (Vec3 2 2 2))"
    by (simp add: drifted_service_def setScalar_def)
  from pafem_resolved_plays_first_clip [OF b r]
  obtain g c cs h m0 where w: "Loaded (action_asset ''BallSign'') = Loaded g" "animations g = c # cs"
    "activeAction ?t = Some h" "clip (store ?t h) = c" "effectiveTimeScale (store ?t h) = 7 / 10"
    "currentModel ready_service = Some m0"
    "map_option transform (currentModel ?t) = Some (transform m0)"
    by blast
  from w(1,2) have "name c = ''BallSign''"
    by (auto simp: action_asset_def)
  with w b ok d show ?thesis
    by (auto simp: ready_service_fields)
qed



subsection \<open>A clip name that is already registered\<close>

text \<open>
  C10. If \<open>playAnimationForExistingModel\<close> loads a clip whose name is already a key of the
  registry, the registry is left as it was (the name keeps its old handle \<open>h0\<close>), while the
  newly created handle becomes the active animation and differs from \<open>h0\<close>. A later
  \<open>play\<close> of that name makes \<open>h0\<close> the active animation and resets and replays it; the
  handle that was just active is only faded out.
\<close>

theorem registered_name_keeps_old_handle:
  assumes "handles_allocated s"
      and "map_get (actions s) (name c) = Some h0"
      and "currentModel s = Some m"
      and "animations g = c # cs"
  shows "\<exists>t. pafem_resume k f (Loaded g) s = (Inr (), t)
           \<and> actions t = actions s
           \<and> map_get (actions t) (name c) = Some h0
           \<and> activeAction t = Some (next_handle s)
           \<and> next_handle s \<noteq> h0
           \<and> clip (store t (next_handle s)) = c
           \<and> isRunning (store t (next_handle s))
           \<and> activeAction (play (name c) f2 t) = Some h0
           \<and> store (play (name c) f2 t) h0 =
               action_play (fadeIn f2 (setEffectiveWeight 1 (setEffectiveTimeScale 1
                 (reset (store t h0)))))
           \<and> store (play (name c) f2 t) (next_handle s) = fadeOut f2 (store t (next_handle s))"
proof -
  let ?t = "snd (pafem_resume k f (Loaded g) s)"
  from assms(2) have mem: "h0 \<in> set (map snd (actions s))"
    by (rule map_get_handle_member)
  with assms(1) have lt: "h0 < next_handle s"
    by (auto simp: handles_allocated_def)
  have has: "map_has (actions s) (name c)"
    using assms(2) by (simp add: map_has_def map_get_def)
  have r: "pafem_resume k f (Loaded g) s = (Inr (), ?t)"
    using pafem_resume_state [OF assms(3,4), of k f] by simp
  have reg: "actions ?t = actions s" and act: "activeAction ?t = Some (next_handle s)"
    and new: "store ?t (next_handle s) = action_play (setEffectiveWeight 1
           (setEffectiveTimeScale 0.7 (reset ((newAction c)\<lparr>clampWhenFinished := True, loop := LoopOnce\<rparr>))))"
    unfolding pafem_resume_state [OF assms(3,4)] using has by simp_all
  have get: "map_get (actions ?t) (name c) = Some h0"
    using reg assms(2) by simp
  have p1: "activeAction (play (name c) f2 ?t) = Some h0"
    and p2: "store (play (name c) f2 ?t) h0 =
               action_play (fadeIn f2 (setEffectiveWeight 1 (setEffectiveTimeScale 1
                 (reset (store ?t h0)))))"
    and p3: "store (play (name c) f2 ?t) (next_handle s) = fadeOut f2 (store ?t (next_handle s))"
    using lt by (simp_all add: play_def get act Let_def)
  from r reg get act lt new p1 p2 p3 show ?thesis
    by (intro exI [of _ ?t]) (simp add: action_defs)
qed


theorem registered_name_keeps_old_handle_witness:
  "handles_allocated ready_service
   \<and> map_get (actions ready_service) ''Idle'' = Some 0
   \<and> next_handle ready_service = 1
   \<and> actions aliased_service = [(''Idle'', 0)]
   \<and> activeAction aliased_service = Some 1
   \<and> activeAction (play ''Idle'' (3 / 10) aliased_service) = Some 0
   \<and> fading (store (play ''Idle'' (3 / 10) aliased_service) 1) = Some (3 / 10, 1, 0)"
proof -
  let ?c = "\<lparr>name = ''Idle'', duration = 3\<rparr>"
  let ?k = "\<lparr>saved = Transform (Vec3 (- (3 / 2)) (- (3 / 2)) (- (3 / 2)))
       (Vec3 (1 / 2) (1 / 2) (1 / 2)), fixedUrl = actionPath ball_sign\<rparr>"
  let ?s = "ready_service\<lparr>requests := requests ready_service @ [actionPath ball_sign]\<rparr>"
  have al: "aliased_service = snd (pafem_resume ?k (3 / 10) (Loaded (action_asset ''Idle'')) ?s)"
    by (simp add: aliased_service_def playAnimationForExistingModel_def pafem_begin_def
          ready_service_fields fixResourcePath_actionPath)
  have h1: "handles_allocated ?s" and h0: "handles_allocated ready_service"
    by (simp_all add: handles_allocated_def ready_service_fields)
  have h2: "map_get (actions ?s) (name ?c) = Some 0"
    by (simp add: map_get_def ready_service_fields)
  have h3: "currentModel ?s = Some \<lparr>transform = Transform (Vec3 (- (3 / 2)) (- (3 / 2)) (- (3 / 2))) (Vec3 (1 / 2) (1 / 2) (1 / 2)),
       visible = True, vertices = [Vec3 0 0 0, Vec3 3 3 3]\<rparr>"
    by (simp add: ready_service_fields)
  have h4: "animations (action_asset ''Idle'') = ?c # []"
    by (simp add: action_asset_def)
  from registered_name_keeps_old_handle [OF h1 h2 h3 h4, of ?k "3 / 10" "3 / 10"]
  obtain t where t: "pafem_resume ?k (3 / 10) (Loaded (action_asset ''Idle'')) ?s = (Inr (), t)"
    "actions t = actions ?s" "activeAction t = Some (next_handle ?s)"
    "activeAction (play (name ?c) (3 / 10) t) = Some 0"
    "store (play (name ?c) (3 / 10) t) (next_handle ?s) = fadeOut (3 / 10) (store t (next_handle ?s))"
    by blast
  from t(1) al have "aliased_service = t" by simp
  with t h0 h2 show ?thesis
    by (simp add: ready_service_fields fadeOut_def map_get_def)
qed



subsection \<open>play\<close>

text \<open>
  C7, as amended. \<open>play(name, fadeSeconds)\<close> returns the state unchanged when \<open>name\<close> is
  not in the registry. Otherwise, with \<open>h\<close> the handle registered under \<open>name\<close>: an
  active animation with another handle is faded out over \<open>fadeSeconds\<close>; the action \<open>h\<close>
  has its time reset to zero, weight and speed set to 1, is faded in over \<open>fadeSeconds\<close>,
  started and marked active; when \<open>h\<close> itself was the active animation it is not faded out,
  only reset and replayed. No other action and no registry entry changes. Same and
  different are decided by the handle (\<open>this.activeAction !== next\<close>), not by the name.
\<close>

theorem play_effect:
  "(map_get (actions s) n = None \<longrightarrow> play n f s = s)
   \<and> (\<forall>h. map_get (actions s) n = Some h \<longrightarrow>
        activeAction (play n f s) = Some h
      \<and> store (play n f s) h =
          (store s h)\<lparr>paused := False, enabled := True, time := 0, timeScale := 1,
             effectiveTimeScale := 1, weight := 1, effectiveWeight := 1,
             fading := Some (f, 0, 1), scheduled := True\<rparr>
      \<and> (\<forall>a. activeAction s = Some a \<and> a \<noteq> h \<longrightarrow>
             store (play n f s) a = (store s a)\<lparr>fading := Some (f, 1, 0)\<rparr>)
      \<and> (\<forall>g. g \<noteq> h \<and> activeAction s \<noteq> Some g \<longrightarrow> store (play n f s) g = store s g)
      \<and> actions (play n f s) = actions s)"
  by (auto simp: play_def Let_def action_defs split: option.splits)


theorem play_effect_witness:
  "map_get (actions ready_service) ''Wave'' = None
   \<and> play ''Wave'' (3 / 10) ready_service = ready_service
   \<and> map_get (actions ready_service) ''Idle'' = Some 0
   \<and> activeAction (play ''Idle'' (3 / 10) ready_service) = Some 0
   \<and> time (store (play ''Idle'' (3 / 10) ready_service) 0) = 0
   \<and> fading (store (play ''Idle'' (3 / 10) ready_service) 0) = Some (3 / 10, 0, 1)
   \<and> fading (store (play ''Idle'' (3 / 10) (play ''Idle'' (3 / 10) ready_service)) 0)
       = Some (3 / 10, 0, 1)
   \<and> activeAction aliased_service = Some 1
   \<and> fading (store (play ''Idle'' (1 / 2) aliased_service) 1) = Some (1 / 2, 1, 0)"
proof -
  have g0: "map_get (actions ready_service) ''Wave'' = None"
    and g1: "map_get (actions ready_service) ''Idle'' = Some 0"
    and g2: "map_get (actions aliased_service) ''Idle'' = Some 0"
    by (simp_all add: map_get_def ready_service_fields aliased_service_fields)
  note p = play_effect [of ready_service "''Idle''" "3 / 10"]
  from p g1 have act: "activeAction (play ''Idle'' (3 / 10) ready_service) = Some 0"
    and reg: "actions (play ''Idle'' (3 / 10) ready_service) = actions ready_service"
    and st: "store (play ''Idle'' (3 / 10) ready_service) 0 =
          (store ready_service 0)\<lparr>paused := False, enabled := True, time := 0, timeScale := 1,
             effectiveTimeScale := 1, weight := 1, effectiveWeight := 1,
             fading := Some (3 / 10, 0, 1), scheduled := True\<rparr>"
    by blast+
  have g3: "map_get (actions (play ''Idle'' (3 / 10) ready_service)) ''Idle'' = Some 0"
    using reg g1 by simp
  from play_effect [of "play ''Idle'' (3 / 10) ready_service" "''Idle''" "3 / 10"] g3
  have again: "store (play ''Idle'' (3 / 10) (play ''Idle'' (3 / 10) ready_service)) 0 =
          (store (play ''Idle'' (3 / 10) ready_service) 0)\<lparr>paused := False, enabled := True,
             time := 0, timeScale := 1, effectiveTimeScale := 1, weight := 1, effectiveWeight := 1,
             fading := Some (3 / 10, 0, 1), scheduled := True\<rparr>"
    by blast
  from play_effect [of ready_service "''Wave''" "3 / 10"] g0
  have noop: "play ''Wave'' (3 / 10) ready_service = ready_service"
    by blast
  from play_effect [of aliased_service "''Idle''" "1 / 2"] g2
  have out: "store (play ''Idle'' (1 / 2) aliased_service) 1
      = (store aliased_service 1)\<lparr>fading := Some (1 / 2, 1, 0)\<rparr>"
    by (simp add: aliased_service_fields)
  from g0 g1 act st again noop out show ?thesis
    by (simp add: aliased_service_fields)
qed



text \<open>
  C7 as stated fails: an active animation of the same name is faded out, and not reset or
  replayed, when it is not the handle the registry holds for that name. Here the character
  embeds \<open>Idle\<close> (handle 0), an action file with a clip \<open>Idle\<close> was played (handle 1,
  active), and \<open>play(''Idle'', 0.3)\<close> fades handle 1 out and starts handle 0.
\<close>

theorem play_fades_out_active_of_same_name:
  "map_get (actions aliased_service) ''Idle'' = Some 0
   \<and> activeAction aliased_service = Some 1
   \<and> name (clip (store aliased_service 1)) = ''Idle''
   \<and> isRunning (store aliased_service 1)
   \<and> fading (store aliased_service 1) = None
   \<and> fading (store (play ''Idle'' (3 / 10) aliased_service) 1) = Some (3 / 10, 1, 0)
   \<and> activeAction (play ''Idle'' (3 / 10) aliased_service) = Some 0"
  by (simp add: play_def map_get_def aliased_service_fields action_defs Let_def
        del: One_nat_def)


lemma playSign_begin_playing:
  "isPlaying (page a) \<Longrightarrow> playSign_begin sign a = (a, None)"
  by (simp add: playSign_begin_def)

lemma playSign_begin_started:
  "playSign_begin sign a = (a1, Some sk) \<Longrightarrow>
     isPlaying (page a1) \<and> timers a1 = timers a
     \<and> requests (three a1) = requests (three a) @ [actionPath sign]"
  by (auto simp: playSign_begin_def pafem_begin_def fixResourcePath_actionPath Let_def
           split: if_splits sum.splits option.splits)

lemma elapse_before:
  assumes "timers a = [d]" and "t < d"
  shows "page (elapse t a) = page a" and "timers (elapse t a) = [d - t]"
  using assms by (simp_all add: elapse_def)

lemma elapse_due:
  assumes "timers a = [d]" and "d \<le> t"
  shows "\<not> isPlaying (page (elapse t a))" and "timers (elapse t a) = []"
  using assms by (simp_all add: elapse_def)


subsection \<open>A second selection while a sign is playing\<close>

text \<open>
  C9. While \<open>isPlaying\<close> is true, a selection is ignored: \<open>playSign\<close> returns with the
  page, the service and its list of load requests unchanged and starts no load. That is
  the case from the moment the first selection has started its load; after the load has
  answered with success and no other timer was pending, it stays the case for every time
  below 4000 ms and \<open>isPlaying\<close> is false once the 4000 ms have elapsed; a first selection
  that ends in failure clears \<open>isPlaying\<close> at once.
\<close>

theorem playSign_ignored_while_playing:
  "(isPlaying (page a) \<longrightarrow>
      playSign_begin other a = (a, None) \<and> playSign other other_answer a = a)
   \<and> (\<forall>a1 sk. playSign_begin sign a = (a1, Some sk) \<longrightarrow>
         isPlaying (page a1) \<and> playSign_begin other a1 = (a1, None))
   \<and> (timers b = [] \<and> isPlaying (page b)
        \<and> fst (pafem_resume k (3 / 10) answer (three b)) = Inr () \<longrightarrow>
         (\<forall>t < 4000.
            isPlaying (page (elapse t (playSign_resume (sign, k) answer b)))
          \<and> playSign_begin other (elapse t (playSign_resume (sign, k) answer b))
              = (elapse t (playSign_resume (sign, k) answer b), None))
       \<and> \<not> isPlaying (page (elapse 4000 (playSign_resume (sign, k) answer b))))
   \<and> (\<forall>e. fst (pafem_resume k (3 / 10) answer (three b)) = Inl e \<longrightarrow>
         \<not> isPlaying (page (playSign_resume (sign, k) answer b)))"
proof (intro conjI impI allI)
  assume "isPlaying (page a)"
  then show "playSign_begin other a = (a, None)" and "playSign other other_answer a = a"
    by (simp_all add: playSign_def playSign_begin_playing)
next
  fix a1 sk
  assume "playSign_begin sign a = (a1, Some sk)"
  then have "isPlaying (page a1)" by (simp add: playSign_begin_started)
  then show "isPlaying (page a1)" and "playSign_begin other a1 = (a1, None)"
    by (simp_all add: playSign_begin_playing)
next
  assume h: "timers b = [] \<and> isPlaying (page b)
        \<and> fst (pafem_resume k (3 / 10) answer (three b)) = Inr ()"
  let ?b = "playSign_resume (sign, k) answer b"
  from h have pg: "page ?b = page b" and tm: "timers ?b = [4000]"
    by (auto simp: playSign_resume_def split: prod.splits sum.splits)
  show "\<not> isPlaying (page (elapse 4000 ?b))"
    using elapse_due(1) [OF tm, of 4000] by simp
  fix t :: nat
  assume "t < 4000"
  then have "page (elapse t ?b) = page b"
    using elapse_before(1) [OF tm, of t] pg by simp
  with h show "isPlaying (page (elapse t ?b))" by simp
  then show "playSign_begin other (elapse t ?b) = (elapse t ?b, None)"
    by (rule playSign_begin_playing)
next
  fix e
  assume "fst (pafem_resume k (3 / 10) answer (three b)) = Inl e"
  then show "\<not> isPlaying (page (playSign_resume (sign, k) answer b))"
    by (auto simp: playSign_resume_def playSign_failed_def split: prod.splits sum.splits)
qed


theorem playSign_ignored_while_playing_witness:
  "isPlaying (page (fst (playSign_begin ball_sign ready_app)))
   \<and> requests (three (fst (playSign_begin ball_sign ready_app)))
       = [modelPath, actionPath ball_sign]
   \<and> playSign_begin afraid_sign (fst (playSign_begin ball_sign ready_app))
       = (fst (playSign_begin ball_sign ready_app), None)
   \<and> isPlaying (page (elapse 3999 (playSign ball_sign (Loaded (action_asset ''BallSign'')) ready_app)))
   \<and> playSign_begin afraid_sign
         (elapse 3999 (playSign ball_sign (Loaded (action_asset ''BallSign'')) ready_app))
       = (elapse 3999 (playSign ball_sign (Loaded (action_asset ''BallSign'')) ready_app), None)
   \<and> \<not> isPlaying (page (elapse 4000 (playSign ball_sign (Loaded (action_asset ''BallSign'')) ready_app)))
   \<and> \<not> isPlaying (page (playSign ball_sign (LoadFailed None) ready_app))"
proof -
  let ?k = "\<lparr>saved = Transform (Vec3 (- (3 / 4)) 0 (- (3 / 4))) (Vec3 (1 / 2) (1 / 2) (1 / 2)),
             fixedUrl = actionPath ball_sign\<rparr>"
  let ?a1 = "ready_app\<lparr>page := (page ready_app)\<lparr>isPlaying := True, page_error := None,
                 selectedSign := Some ball_sign\<rparr>,
               three := (three ready_app)\<lparr>requests := requests (three ready_app) @ [actionPath ball_sign]\<rparr>\<rparr>"
  let ?ok = "Loaded (action_asset ''BallSign'')"
  have b: "playSign_begin ball_sign ready_app = (?a1, Some (ball_sign, ?k))"
    by (simp add: playSign_begin_def pafem_begin_def ready_app_fields fixResourcePath_actionPath)
  have ps: "playSign ball_sign answer ready_app = playSign_resume (ball_sign, ?k) answer ?a1" for answer
    by (simp add: playSign_def b)
  have h1: "timers ?a1 = [] \<and> isPlaying (page ?a1)
        \<and> fst (pafem_resume ?k (3 / 10) ?ok (three ?a1)) = Inr ()"
    by (simp add: ready_app_fields pafem_resume_resolved_iff action_asset_def)
  have h2: "fst (pafem_resume ?k (3 / 10) (LoadFailed None) (three ?a1)) = Inl (LoaderError None)"
    by (simp add: pafem_resume_def)
  note t = playSign_ignored_while_playing [where a = ?a1 and sign = ball_sign
      and other = afraid_sign and b = ?a1 and k = ?k and answer = ?ok and other_answer = ?ok]
  note t' = playSign_ignored_while_playing [where a = ready_app and sign = ball_sign
      and other = afraid_sign and b = ?a1 and k = ?k and answer = "LoadFailed None"
      and other_answer = ?ok]
  from t' b have c1: "isPlaying (page ?a1)" and c2: "playSign_begin afraid_sign ?a1 = (?a1, None)"
    by blast+
  from t h1 have c3: "\<forall>t < 4000.
            isPlaying (page (elapse t (playSign_resume (ball_sign, ?k) ?ok ?a1)))
          \<and> playSign_begin afraid_sign (elapse t (playSign_resume (ball_sign, ?k) ?ok ?a1))
              = (elapse t (playSign_resume (ball_sign, ?k) ?ok ?a1), None)"
    and c4: "\<not> isPlaying (page (elapse 4000 (playSign_resume (ball_sign, ?k) ?ok ?a1)))"
    by blast+
  from c3 have c5: "isPlaying (page (elapse 3999 (playSign_resume (ball_sign, ?k) ?ok ?a1)))
          \<and> playSign_begin afraid_sign (elapse 3999 (playSign_resume (ball_sign, ?k) ?ok ?a1))
              = (elapse 3999 (playSign_resume (ball_sign, ?k) ?ok ?a1), None)"
    by simp
  from t' h2 have c6: "\<not> isPlaying (page (playSign_resume (ball_sign, ?k) (LoadFailed None) ?a1))"
    by blast
  have c0: "requests (three ?a1) = [modelPath, actionPath ball_sign]"
    by (simp add: ready_app_fields)
  from c0 c1 c2 c4 c5 c6 show ?thesis
    unfolding ps b fst_conv by blast
qed


lemma dispose_with_scene:
  assumes "scene s \<noteq> None \<or> currentModel s = None"
  shows "fst (disposeCurrentModel s) = None"
    and "currentModel (snd (disposeCurrentModel s)) = None"
    and "scene (snd (disposeCurrentModel s)) = None \<longleftrightarrow> scene s = None"
  using assms
  by (auto simp: disposeCurrentModel_def Let_def split: option.splits)

lemma loadModel_failed:
  assumes "scene s \<noteq> None \<or> currentModel s = None"
  shows "loadModel url (LoadFailed msg) s
     = (Inl (LoaderError msg),
        (snd (disposeCurrentModel s))\<lparr>requests := requests (snd (disposeCurrentModel s)) @ [url]\<rparr>)"
  using dispose_with_scene(1) [OF assms]
  by (cases "disposeCurrentModel s") (simp add: loadModel_def)


subsection \<open>A failed load of the character\<close>

text \<open>
  C6. If the fetch or parse of the asset fails, \<open>loadModel\<close> rejects with the loader's
  error and the service is left without a current model (for every state in which a
  current model implies a scene, as \<open>initialize\<close> and \<open>loadModel\<close> establish). On the
  page, \<open>ngAfterViewInit\<close> then ends with \<open>loading = false\<close>, a non-empty error string
  and \<open>characterLoaded\<close> as it was, which is \<open>false\<close> for the page as constructed.
\<close>

theorem loadModel_failure_leaves_no_model:
  "(scene s \<noteq> None \<or> currentModel s = None \<longrightarrow>
      (\<exists>s'. loadModel url (LoadFailed msg) s = (Inl (LoaderError msg), s')
            \<and> currentModel s' = None))
   \<and> \<not> loading (page (ngAfterViewInit vp (LoadFailed msg) a))
   \<and> (\<exists>e. page_error (page (ngAfterViewInit vp (LoadFailed msg) a)) = Some e \<and> e \<noteq> [])
   \<and> characterLoaded (page (ngAfterViewInit vp (LoadFailed msg) a)) = characterLoaded (page a)
   \<and> \<not> characterLoaded (page (ngAfterViewInit vp (LoadFailed msg) (a\<lparr>page := initial_page\<rparr>)))
   \<and> currentModel (three (ngAfterViewInit vp (LoadFailed msg) a)) = None"
proof -
  let ?t1 = "\<lambda>a. setBackground (ColorString ''#f8f8f8'')
                 (initialize (canvas_width vp) (canvas_height vp) (three a))"
  have sc: "scene (?t1 x) \<noteq> None \<or> currentModel (?t1 x) = None" for x
    by (simp add: setBackground_def initialize_def)
  have ng: "ngAfterViewInit vp (LoadFailed msg) x =
      x\<lparr>three := (snd (disposeCurrentModel (?t1 x)))
                    \<lparr>requests := requests (snd (disposeCurrentModel (?t1 x))) @ [modelPath]\<rparr>,
        page := (page x)\<lparr>page_error :=
                    Some (case msg of
                            Some m \<Rightarrow> if m \<noteq> [] then m else ''Failed to load character model''
                          | None \<Rightarrow> ''Failed to load character model''),
                  loading := False\<rparr>\<rparr>" for x
    unfolding ngAfterViewInit_def Let_def loadModel_failed [OF sc]
    by (simp add: message_def)
  have p1: "scene s \<noteq> None \<or> currentModel s = None \<longrightarrow>
      (\<exists>s'. loadModel url (LoadFailed msg) s = (Inl (LoaderError msg), s')
            \<and> currentModel s' = None)"
    by (auto simp: loadModel_failed dispose_with_scene)
  have p2: "\<exists>e. page_error (page (ngAfterViewInit vp (LoadFailed msg) a)) = Some e \<and> e \<noteq> []"
    unfolding ng by (simp split: option.splits)
  have p3: "currentModel (three (ngAfterViewInit vp (LoadFailed msg) a)) = None"
    unfolding ng using dispose_with_scene(2) [OF sc] by simp
  show ?thesis
    using p1 p2 p3 unfolding ng by (simp add: initial_page_def)
qed


theorem loadModel_failure_leaves_no_model_witness:
  "scene ready_service \<noteq> None
   \<and> currentModel ready_service \<noteq> None
   \<and> fst (loadModel modelPath (LoadFailed (Some ''Not Found'')) ready_service)
       = Inl (LoaderError (Some ''Not Found''))
   \<and> currentModel (snd (loadModel modelPath (LoadFailed (Some ''Not Found'')) ready_service)) = None
   \<and> \<not> loading (page (ngAfterViewInit big_viewport (LoadFailed None) fresh_app))
   \<and> \<not> characterLoaded (page (ngAfterViewInit big_viewport (LoadFailed None) fresh_app))
   \<and> page_error (page (ngAfterViewInit big_viewport (LoadFailed None) fresh_app))
       = Some ''Failed to load character model''
   \<and> currentModel (three (ngAfterViewInit big_viewport (LoadFailed None) fresh_app)) = None"
proof -
  have h: "scene ready_service \<noteq> None \<or> currentModel ready_service = None"
    and h': "scene ready_service \<noteq> None" "currentModel ready_service \<noteq> None"
    by (simp_all add: ready_service_fields)
  note t1 = loadModel_failure_leaves_no_model [where s = ready_service and url = modelPath
      and msg = "Some ''Not Found''" and vp = big_viewport and a = fresh_app]
  note t2 = loadModel_failure_leaves_no_model [where s = ready_service and url = modelPath
      and msg = None and vp = big_viewport and a = fresh_app]
  from t1 h obtain s' where
    "loadModel modelPath (LoadFailed (Some ''Not Found'')) ready_service
       = (Inl (LoaderError (Some ''Not Found'')), s')" "currentModel s' = None"
    by blast
  then have c1: "fst (loadModel modelPath (LoadFailed (Some ''Not Found'')) ready_service)
       = Inl (LoaderError (Some ''Not Found''))"
    and c2: "currentModel (snd (loadModel modelPath (LoadFailed (Some ''Not Found'')) ready_service)) = None"
    by simp_all
  from t2 have c3: "\<not> loading (page (ngAfterViewInit big_viewport (LoadFailed None) fresh_app))"
    and c4: "characterLoaded (page (ngAfterViewInit big_viewport (LoadFailed None) fresh_app))
       = characterLoaded (page fresh_app)"
    and c5: "currentModel (three (ngAfterViewInit big_viewport (LoadFailed None) fresh_app)) = None"
    by blast+
  have c6: "page_error (page (ngAfterViewInit big_viewport (LoadFailed None) fresh_app))
       = Some ''Failed to load character model''"
    by (simp add: ngAfterViewInit_def loadModel_def disposeCurrentModel_def setBackground_def
          initialize_def fresh_app_def fresh_service_def message_def)
  have c7: "\<not> characterLoaded (page fresh_app)"
    by (simp add: fresh_app_def initial_page_def)
  from h' c1 c2 c3 c4 c5 c6 c7 show ?thesis by simp
qed


lemma map_set_keys:
  "map fst (map_set k v xs) = (if k \<in> set (map fst xs) then map fst xs else map fst xs @ [k])"
  by (induction xs) (fastforce split: if_splits)+

lemma map_set_entries:
  "set (map_set k v xs) \<subseteq> insert (k, v) (set xs)"
  by (induction xs) (fastforce split: if_splits)+

lemma register_clip_fields:
  "store (register_clip c s) =
     (store s)(next_handle s := (newAction c)\<lparr>clampWhenFinished := True, loop := LoopOnce\<rparr>)"
  "next_handle (register_clip c s) = Suc (next_handle s)"
  "actions (register_clip c s) = map_set (name c) (next_handle s) (actions s)"
  "scene (register_clip c s) = scene s"
  "currentModel (register_clip c s) = currentModel s"
  by (simp_all add: register_clip_def clipAction_def)

lemma register_clips_Cons:
  "register_clips (c # cs) s = register_clips cs (register_clip c s)"
  by (simp add: register_clip_def split: prod.split)

lemma register_clip_entries_ok:
  assumes "entries_ok lo C s" and "lo \<le> next_handle s" and "c \<in> C"
  shows "entries_ok lo C (register_clip c s)"
  unfolding entries_ok_def
proof (intro ballI, clarify)
  fix n h
  assume "(n, h) \<in> set (actions (register_clip c s))"
  then have "(n, h) = (name c, next_handle s) \<or> (n, h) \<in> set (actions s)"
    using map_set_entries [of "name c" "next_handle s" "actions s"]
    by (auto simp: register_clip_fields)
  then show "lo \<le> h \<and> h < next_handle (register_clip c s)
      \<and> clampWhenFinished (store (register_clip c s) h)
      \<and> loop (store (register_clip c s) h) = LoopOnce
      \<and> clip (store (register_clip c s) h) \<in> C
      \<and> name (clip (store (register_clip c s) h)) = n"
  proof
    assume "(n, h) = (name c, next_handle s)"
    with assms(2,3) show ?thesis
      by (simp add: register_clip_fields newAction_def)
  next
    assume old: "(n, h) \<in> set (actions s)"
    with assms(1) have "lo \<le> h \<and> h < next_handle s \<and> clampWhenFinished (store s h)
        \<and> loop (store s h) = LoopOnce \<and> clip (store s h) \<in> C \<and> name (clip (store s h)) = n"
      by (auto simp: entries_ok_def)
    then show ?thesis
      by (simp add: register_clip_fields)
  qed
qed

lemma register_clips_entries_ok:
  "entries_ok lo C s \<Longrightarrow> lo \<le> next_handle s \<Longrightarrow> set cs \<subseteq> C \<Longrightarrow>
     entries_ok lo C (register_clips cs s)"
proof (induction cs arbitrary: s)
  case Nil
  then show ?case by simp
next
  case (Cons c cs)
  have "entries_ok lo C (register_clip c s)"
    using Cons.prems by (intro register_clip_entries_ok) auto
  moreover have "lo \<le> next_handle (register_clip c s)"
    using Cons.prems(2) by (simp add: register_clip_fields)
  ultimately show ?case
    using Cons.IH [of "register_clip c s"] Cons.prems(3)
    by (simp add: register_clips_Cons del: register_clips.simps)
qed

lemma register_clips_keys:
  "set (map fst (actions (register_clips cs s))) = set (map fst (actions s)) \<union> name ` set cs"
proof (induction cs arbitrary: s)
  case Nil
  then show ?case by simp
next
  case (Cons c cs)
  have "set (map fst (actions (register_clip c s))) = insert (name c) (set (map fst (actions s)))"
    by (auto simp: register_clip_fields map_set_keys)
  with Cons.IH [of "register_clip c s"] show ?case
    by (simp add: register_clips_Cons del: register_clips.simps)
qed

lemma register_clips_distinct:
  "distinct (map fst (actions s)) \<Longrightarrow> distinct (map fst (actions (register_clips cs s)))"
proof (induction cs arbitrary: s)
  case Nil
  then show ?case by simp
next
  case (Cons c cs)
  have "distinct (map fst (actions (register_clip c s)))"
    using Cons.prems by (simp add: register_clip_fields map_set_keys)
  with Cons.IH [of "register_clip c s"] show ?case
    by (simp add: register_clips_Cons del: register_clips.simps)
qed

lemma register_clips_names_in_order:
  "distinct (map name cs) \<Longrightarrow> set (map name cs) \<inter> set (map fst (actions s)) = {} \<Longrightarrow>
     map fst (actions (register_clips cs s)) = map fst (actions s) @ map name cs"
proof (induction cs arbitrary: s)
  case Nil
  then show ?case by simp
next
  case (Cons c cs)
  have k: "map fst (actions (register_clip c s)) = map fst (actions s) @ [name c]"
    using Cons.prems(2) by (auto simp: register_clip_fields map_set_keys)
  have "set (map name cs) \<inter> set (map fst (actions (register_clip c s))) = {}"
    unfolding k using Cons.prems by auto
  with Cons.IH [of "register_clip c s"] Cons.prems(1) k show ?case
    by (simp add: register_clips_Cons del: register_clips.simps)
qed

lemma register_clips_frame:
  "scene (register_clips cs s) = scene s"
  "currentModel (register_clips cs s) = currentModel s"
  by (induction cs arbitrary: s)
     (simp_all add: register_clips_Cons register_clip_fields del: register_clips.simps(2))

lemma dispose_next_handle:
  "next_handle (snd (disposeCurrentModel s)) = next_handle s"
  by (simp add: disposeCurrentModel_def Let_def split: option.splits)

lemma loadModel_resolved:
  assumes "loadModel url (Loaded g) s = (Inr m, s')"
  shows "\<exists>s2. actions s2 = [] \<and> next_handle s2 = next_handle s
           \<and> actions s' = actions (register_clips (animations g) s2)
           \<and> store s' = store (register_clips (animations g) s2)
           \<and> m = centerAndScale (gltf_scene g) \<and> currentModel s' = Some m"
proof -
  obtain eo s0 where d: "disposeCurrentModel s = (eo, s0)"
    by (cases "disposeCurrentModel s")
  with assms have eo: "eo = None"
    by (cases eo) (simp_all add: loadModel_def)
  have nh: "next_handle s0 = next_handle s"
    using dispose_next_handle [of s] d by simp
  show ?thesis
  proof (cases "animations g = []")
    case True
    let ?s2 = "s0\<lparr>requests := requests s0 @ [url], actions := [], mixer := None\<rparr>"
    from assms True have "actions s' = actions ?s2 \<and> store s' = store ?s2
        \<and> m = centerAndScale (gltf_scene g) \<and> currentModel s' = Some m"
      unfolding loadModel_def d eo Let_def by (auto split: option.splits)
    with nh True show ?thesis
      by (intro exI [of _ ?s2]) simp
  next
    case False
    let ?s2 = "s0\<lparr>requests := requests s0 @ [url], actions := [], mixer := Some newMixer\<rparr>"
    from assms False have "actions s' = actions (register_clips (animations g) ?s2)
        \<and> store s' = store (register_clips (animations g) ?s2)
        \<and> m = centerAndScale (gltf_scene g) \<and> currentModel s' = Some m"
      unfolding loadModel_def d eo Let_def by (auto split: option.splits)
    with nh show ?thesis
      by (intro exI [of _ ?s2]) simp
  qed
qed


subsection \<open>The registry after loadModel\<close>

text \<open>
  C5, as amended. After \<open>loadModel\<close> resolves on an asset, \<open>getClipNames()\<close> returns
  exactly the set of clip names embedded in that asset, each name once: one registry entry
  per distinct clip name, hence one per embedded clip when the names of the clips are
  pairwise distinct (the names then come in the asset's order). The handle of every entry
  was created by this load for an embedded clip of that name and is set to clamp when
  finished and to play once. A clip name of the previous registry that the new asset does
  not embed is no longer present.
\<close>

theorem loadModel_rebuilds_registry:
  assumes "loadModel url (Loaded g) s = (Inr m, s')"
  shows "set (getClipNames s') = name ` set (animations g)
       \<and> distinct (getClipNames s')
       \<and> (distinct (map name (animations g)) \<longrightarrow> getClipNames s' = map name (animations g))
       \<and> (\<forall>(n, h) \<in> set (actions s').
             next_handle s \<le> h
           \<and> clampWhenFinished (store s' h) \<and> loop (store s' h) = LoopOnce
           \<and> clip (store s' h) \<in> set (animations g) \<and> name (clip (store s' h)) = n)
       \<and> (\<forall>n \<in> set (getClipNames s).
             n \<notin> name ` set (animations g) \<longrightarrow> n \<notin> set (getClipNames s'))"
proof -
  from loadModel_resolved [OF assms] obtain s2 where
    s2: "actions s2 = []" "next_handle s2 = next_handle s"
        "actions s' = actions (register_clips (animations g) s2)"
        "store s' = store (register_clips (animations g) s2)"
    by blast
  have keys: "set (getClipNames s') = name ` set (animations g)"
    using register_clips_keys [of "animations g" s2] s2 by (simp add: getClipNames_def)
  have dist: "distinct (getClipNames s')"
    using register_clips_distinct [of s2 "animations g"] s2 by (simp add: getClipNames_def)
  have ord: "getClipNames s' = map name (animations g)" if "distinct (map name (animations g))"
    using register_clips_names_in_order [of "animations g" s2] that s2
    by (simp add: getClipNames_def)
  have "entries_ok (next_handle s) (set (animations g)) s2"
    using s2 by (simp add: entries_ok_def)
  then have "entries_ok (next_handle s) (set (animations g)) (register_clips (animations g) s2)"
    using s2 by (intro register_clips_entries_ok) simp_all
  then have ent: "\<forall>(n, h) \<in> set (actions s').
             next_handle s \<le> h
           \<and> clampWhenFinished (store s' h) \<and> loop (store s' h) = LoopOnce
           \<and> clip (store s' h) \<in> set (animations g) \<and> name (clip (store s' h)) = n"
    using s2 by (auto simp: entries_ok_def)
  from keys dist ord ent show ?thesis by auto
qed


theorem loadModel_rebuilds_registry_witness:
  "fst (loadModel modelPath (Loaded character_asset) (initialize 800 600 fresh_service))
     = Inr (centerAndScale (cube 3))
   \<and> getClipNames ready_service = [''Idle'']
   \<and> clampWhenFinished (store ready_service 0)
   \<and> loop (store ready_service 0) = LoopOnce
   \<and> fst (loadModel modelPath (Loaded (action_asset ''Wave'')) ready_service)
     = Inr (centerAndScale (gltf_scene (action_asset ''Wave'')))
   \<and> getClipNames (snd (loadModel modelPath (Loaded (action_asset ''Wave'')) ready_service))
     = [''Wave'']
   \<and> ''Idle'' \<notin> set (getClipNames (snd (loadModel modelPath (Loaded (action_asset ''Wave''))
         ready_service)))"
proof -
  let ?s0 = "initialize 800 600 fresh_service"
  let ?t = "snd (loadModel modelPath (Loaded (action_asset ''Wave'')) ready_service)"
  have f1: "fst (loadModel modelPath (Loaded character_asset) ?s0) = Inr (centerAndScale (cube 3))"
    by (simp add: loadModel_def initialize_def disposeCurrentModel_def fresh_service_def
          character_asset_def Let_def clipAction_def)
  then have r1: "loadModel modelPath (Loaded character_asset) ?s0
      = (Inr (centerAndScale (cube 3)), ready_service)"
    by (simp add: ready_service_def prod_eq_iff)
  have f2: "fst (loadModel modelPath (Loaded (action_asset ''Wave'')) ready_service)
     = Inr (centerAndScale (gltf_scene (action_asset ''Wave'')))"
    by (simp add: loadModel_def disposeCurrentModel_def ready_service_fields Let_def
          clipAction_def action_asset_def)
  then have r2: "loadModel modelPath (Loaded (action_asset ''Wave'')) ready_service
      = (Inr (centerAndScale (gltf_scene (action_asset ''Wave''))), ?t)"
    by (simp add: prod_eq_iff)
  note t1 = loadModel_rebuilds_registry [OF r1]
  note t2 = loadModel_rebuilds_registry [OF r2]
  have d1: "distinct (map name (animations character_asset))"
    and d2: "distinct (map name (animations (action_asset ''Wave'')))"
    by (simp_all add: character_asset_def action_asset_def)
  from t1 d1 have c1: "getClipNames ready_service = [''Idle'']"
    by (simp add: character_asset_def idle_clip_def)
  from t1 have "\<forall>(n, h) \<in> set (actions ready_service).
      clampWhenFinished (store ready_service h) \<and> loop (store ready_service h) = LoopOnce"
    by auto
  then have c2: "clampWhenFinished (store ready_service 0) \<and> loop (store ready_service 0) = LoopOnce"
    by (simp add: ready_service_fields)
  from t2 d2 have c3: "getClipNames ?t = [''Wave'']"
    by (simp add: action_asset_def)
  from f1 f2 c1 c2 c3 show ?thesis by simp
qed



text \<open>
  C5 as stated fails on an asset with two clips of one name: both are named \<open>Idle\<close>, and
  the registry has the single entry \<open>Idle\<close>, which holds the second clip's handle. And a
  clip name of the previous model does remain when the new asset embeds that name too, as
  on loading the same character again.
\<close>

theorem clips_of_one_name_share_an_entry:
  "fst (loadModel modelPath (Loaded twin_clip_asset) (initialize 800 600 fresh_service))
     = Inr (centerAndScale (cube 3))
   \<and> length (animations twin_clip_asset) = 2
   \<and> getClipNames (snd (loadModel modelPath (Loaded twin_clip_asset)
         (initialize 800 600 fresh_service))) = [''Idle'']
   \<and> actions (snd (loadModel modelPath (Loaded twin_clip_asset)
         (initialize 800 600 fresh_service))) = [(''Idle'', 1)]
   \<and> getClipNames ready_service = [''Idle'']
   \<and> fst (loadModel modelPath (Loaded character_asset) ready_service)
     = Inr (centerAndScale (cube 3))
   \<and> getClipNames (snd (loadModel modelPath (Loaded character_asset) ready_service)) = [''Idle'']"
  by (simp add: loadModel_def initialize_def disposeCurrentModel_def fresh_service_def
        twin_clip_asset_def character_asset_def idle_clip_def Let_def clipAction_def
        getClipNames_def ready_service_fields)


lemma affine_min:
  fixes p k a b :: real
  assumes "0 \<le> k"
  shows "min (p + k * a) (p + k * b) = p + k * min a b"
    and "max (p + k * a) (p + k * b) = p + k * max a b"
proof -
  have "min (p + k * a) (p + k * b) = p + min (k * a) (k * b)"
    by (simp add: min_add_distrib_right)
  also have "min (k * a) (k * b) = k * min a b"
    using assms by (simp add: min_mult_distrib_left)
  finally show "min (p + k * a) (p + k * b) = p + k * min a b" .
  have "max (p + k * a) (p + k * b) = p + max (k * a) (k * b)"
    by (simp add: max_add_distrib_right)
  also have "max (k * a) (k * b) = k * max a b"
    using assms by (simp add: max_mult_distrib_left)
  finally show "max (p + k * a) (p + k * b) = p + k * max a b" .
qed

lemma applyTransform_vmin:
  assumes "nonneg sc"
  shows "vmin (applyTransform p sc a) (applyTransform p sc b) = applyTransform p sc (vmin a b)"
    and "vmax (applyTransform p sc a) (applyTransform p sc b) = applyTransform p sc (vmax a b)"
  using assms by (simp_all add: vmin_def vmax_def applyTransform_def nonneg_def affine_min)

lemma foldl_expand_affine:
  assumes "nonneg sc"
  shows "foldl expandByPoint (box_map (applyTransform p sc) b) (map (applyTransform p sc) vs)
       = box_map (applyTransform p sc) (foldl expandByPoint b vs)"
proof (induction vs arbitrary: b)
  case Nil
  then show ?case by simp
next
  case (Cons v vs)
  have "expandByPoint (box_map (applyTransform p sc) b) (applyTransform p sc v)
      = box_map (applyTransform p sc) (expandByPoint b v)"
    using applyTransform_vmin [OF assms]
    by (cases b) (simp_all add: expandByPoint_def box_map_def)
  with Cons.IH [of "expandByPoint b v"] show ?case by simp
qed

lemma setFromObject_affine:
  assumes "nonneg sc"
  shows "setFromObject p sc vs = box_map (applyTransform p sc) (setFromPoints vs)"
  using foldl_expand_affine [OF assms, of p EmptyBox vs]
  by (simp add: setFromObject_def setFromPoints_def box_map_def)

lemma getSize_affine:
  "getSize (box_map (applyTransform p sc) b)
     = Vec3 (vx sc * vx (getSize b)) (vy sc * vy (getSize b)) (vz sc * vz (getSize b))"
  by (cases b)
     (simp_all add: getSize_def box_map_def applyTransform_def vsub_def vzero_def algebra_simps)

lemma getCenter_affine:
  "b \<noteq> EmptyBox \<Longrightarrow>
     getCenter (box_map (applyTransform p sc) b) = applyTransform p sc (getCenter b)"
  by (cases b)
     (simp_all add: getCenter_def box_map_def applyTransform_def vadd_def multiplyScalar_def
        field_simps)

lemma maxDimOf_scaled:
  assumes "0 \<le> k"
  shows "maxDimOf (Vec3 (k * a) (k * b) (k * c)) = k * maxDimOf (Vec3 a b c)"
  using assms by (simp add: maxDimOf_def max_mult_distrib_left)

lemma getSize_nonneg:
  "nonneg (getSize (setFromPoints vs))"
proof -
  have "\<And>b. (case b of EmptyBox \<Rightarrow> True | Box lo hi \<Rightarrow> nonneg (vsub hi lo)) \<Longrightarrow>
     (case foldl expandByPoint b vs of EmptyBox \<Rightarrow> True | Box lo hi \<Rightarrow> nonneg (vsub hi lo))"
  proof (induction vs)
    case Nil
    then show ?case by simp
  next
    case (Cons v vs)
    have "case expandByPoint b v of EmptyBox \<Rightarrow> True | Box lo hi \<Rightarrow> nonneg (vsub hi lo)"
      using Cons.prems
      by (cases b) (auto simp: expandByPoint_def nonneg_def vsub_def vmin_def vmax_def)
    then show ?case using Cons.IH by simp
  qed
  from this [of EmptyBox] show ?thesis
    by (simp add: setFromPoints_def getSize_def nonneg_def vzero_def split: box3.splits)
qed

lemma applyTransform_identity [simp]: "applyTransform vzero (setScalar 1) v = v"
  by (simp add: applyTransform_def vzero_def setScalar_def)

lemma setFromObject_identity: "setFromObject vzero (setScalar 1) vs = setFromPoints vs"
proof -
  have "map (applyTransform vzero (setScalar 1)) vs = vs"
    by (induction vs) simp_all
  then show ?thesis by (simp add: setFromObject_def)
qed

lemma applyTransform_split:
  "applyTransform p sc v = applyTransform p (setScalar 1) (applyTransform vzero sc v)"
  by (simp add: applyTransform_def vzero_def setScalar_def)

lemma setFromObject_translate:
  "setFromObject p sc vs = box_map (applyTransform p (setScalar 1)) (setFromObject vzero sc vs)"
proof -
  have "map (applyTransform p sc) vs
      = map (applyTransform p (setScalar 1)) (map (applyTransform vzero sc) vs)"
    by (induction vs) (simp_all add: applyTransform_split [of p sc])
  then have "setFromObject p sc vs
      = setFromObject p (setScalar 1) (map (applyTransform vzero sc) vs)"
    unfolding setFromObject_def by (rule arg_cong)
  also have "\<dots> = box_map (applyTransform p (setScalar 1))
      (setFromPoints (map (applyTransform vzero sc) vs))"
    by (rule setFromObject_affine) (simp add: nonneg_def setScalar_def)
  finally show ?thesis by (simp add: setFromObject_def)
qed

lemma getSize_translate:
  "getSize (setFromObject p sc vs) = getSize (setFromObject vzero sc vs)"
  unfolding setFromObject_translate [of p sc vs] getSize_affine
  by (simp add: setScalar_def)

lemma centerModel_fixed_in_range:
  assumes "currentModel s = Some m"
      and "largest_extent m = Some d"
      and "1 \<le> d" and "d \<le> 3"
  shows "centerModel (centerModel s) = centerModel s"
proof -
  from assms(2) obtain p sc where t: "transform m = Transform p sc"
    and d: "d = maxDimOf (getSize (setFromObject p sc (vertices m)))"
    by (cases "transform m") (auto simp: largest_extent_def worldBox_def)
  let ?box = "setFromObject vzero sc (vertices m)"
  let ?pos = "Vec3 (- vx (getCenter ?box)) (- vy (getCenter ?box) + vy (getSize ?box) * 0.5)
                (- vz (getCenter ?box))"
  have d': "maxDimOf (getSize ?box) = d"
    using d getSize_translate [of p sc "vertices m"] by simp
  have once: "centerModel s = s\<lparr>currentModel := Some (m\<lparr>transform := Transform ?pos sc\<rparr>)\<rparr>"
    using assms(1,3,4) t d' by (simp add: centerModel_def Let_def)
  have "centerModel (s\<lparr>currentModel := Some (m\<lparr>transform := Transform ?pos sc\<rparr>)\<rparr>)
      = s\<lparr>currentModel := Some (m\<lparr>transform := Transform ?pos sc\<rparr>)\<rparr>"
    using assms(3,4) d' by (simp add: centerModel_def Let_def)
  then show ?thesis by (simp add: once)
qed


lemma getSize_EmptyBox: "maxDimOf (getSize EmptyBox) = 0"
  by (simp add: getSize_def maxDimOf_def vzero_def)

lemma centerAndScale_box:
  assumes "transform model = Transform vzero (setScalar 1)"
      and "0 < maxDimOf (getSize (setFromPoints (vertices model)))"
  shows "\<exists>b. worldBox (centerAndScale model) = Some b
           \<and> maxDimOf (getSize b) = 3 / 2
           \<and> getCenter b = multiplyScalar (getCenter (setFromPoints (vertices model)))
                 (3 / 2 / maxDimOf (getSize (setFromPoints (vertices model))) - 1)"
proof -
  let ?orig = "setFromPoints (vertices model)"
  let ?p = "vsub vzero (getCenter ?orig)"
  define d where "d = maxDimOf (getSize ?orig)"
  define k where "k = 3 / 2 / d"
  have dpos: "0 < d" using assms(2) by (simp add: d_def)
  then have k: "0 < k" by (simp add: k_def)
  have kd: "k * d = 3 / 2" using dpos by (simp add: k_def)
  have ne: "?orig \<noteq> EmptyBox"
    using assms(2) getSize_EmptyBox by auto
  have t: "transform (centerAndScale model) = Transform ?p (setScalar k)"
    and v: "vertices (centerAndScale model) = vertices model"
    using assms by (simp_all add: centerAndScale_def setFromObject_identity Let_def k_def d_def)
  have nn: "nonneg (setScalar k)"
    using k by (simp add: nonneg_def setScalar_def)
  let ?moved = "box_map (applyTransform ?p (setScalar k)) ?orig"
  have w: "worldBox (centerAndScale model) = Some ?moved"
    by (simp only: worldBox_def t v transform.case setFromObject_affine [OF nn])
  obtain a b c where sz: "getSize ?orig = Vec3 a b c"
    by (cases "getSize ?orig")
  have "getSize ?moved = Vec3 (k * a) (k * b) (k * c)"
    by (simp add: getSize_affine setScalar_def sz)
  then have "maxDimOf (getSize ?moved) = k * maxDimOf (Vec3 a b c)"
    using k maxDimOf_scaled [of k a b c] by simp
  also have "\<dots> = k * d"
    by (simp add: d_def sz)
  finally have s: "maxDimOf (getSize ?moved) = 3 / 2"
    using kd by simp
  have c: "getCenter ?moved = multiplyScalar (getCenter ?orig) (k - 1)"
    unfolding getCenter_affine [OF ne]
    by (simp add: applyTransform_def vsub_def vzero_def setScalar_def multiplyScalar_def
          algebra_simps)
  from w s c show ?thesis
    unfolding k_def d_def by blast
qed


subsection \<open>centerModel twice\<close>


subsection \<open>The model after loadModel\<close>

text \<open>
  C2 does not hold of the code. \<open>loadModel\<close> subtracts the centre of the unscaled box from
  the position and then sets the scale, and the scale acts about the model's own origin:
  the box ends with its largest extent 1.5, but with its centre at \<open>(1.5 / maxDim - 1)\<close>
  times the old centre (\<open>centerAndScale_box\<close>), which is the origin only for an asset
  that was centred already or had the extent 1.5. For the character spanning \<open>(0, 0, 0)\<close>
  to \<open>(3, 3, 3)\<close> the loaded model's box spans \<open>(-1.5, -1.5, -1.5)\<close> to the origin: its
  centre is \<open>(-0.75, -0.75, -0.75)\<close>.
\<close>

theorem loadModel_center_off_origin:
  "fst (loadModel modelPath (Loaded character_asset) (initialize 800 600 fresh_service))
     = Inr \<lparr>transform = Transform (Vec3 (- (3 / 2)) (- (3 / 2)) (- (3 / 2)))
                          (Vec3 (1 / 2) (1 / 2) (1 / 2)),
            visible = True, vertices = [Vec3 0 0 0, Vec3 3 3 3]\<rparr>
   \<and> map_option worldBox (currentModel ready_service)
     = Some (Some (Box (Vec3 (- (3 / 2)) (- (3 / 2)) (- (3 / 2))) (Vec3 0 0 0)))
   \<and> map_option (map_option getCenter \<circ> worldBox) (currentModel ready_service)
     = Some (Some (Vec3 (- (3 / 4)) (- (3 / 4)) (- (3 / 4))))
   \<and> map_option largest_extent (currentModel ready_service) = Some (Some (3 / 2))"
  by (simp add: loadModel_def initialize_def disposeCurrentModel_def fresh_service_def
        character_asset_def idle_clip_def cube_def Let_def clipAction_def centerAndScale_def
        ready_service_fields largest_extent_def vec_defs box_defs)


subsection \<open>The handles the service holds\<close>

text \<open>
  \<open>handles_allocated\<close> holds of the service as constructed and is kept by every
  operation, so it holds whenever one of them is called.
\<close>

lemma handles_allocated_fresh: "handles_allocated fresh_service"
  by (simp add: handles_allocated_def fresh_service_def)

lemma handles_allocated_play: "handles_allocated s \<Longrightarrow> handles_allocated (play n f s)"
  by (auto simp: handles_allocated_def play_def Let_def map_get_def
           split: option.splits dest!: map_of_SomeD intro: rev_image_eqI)

lemma handles_allocated_stop: "handles_allocated s \<Longrightarrow> handles_allocated (stop s)"
  by (auto simp: handles_allocated_def stop_def split: option.splits)

lemma handles_allocated_cong:
  "actions t = actions s \<Longrightarrow> activeAction t = activeAction s \<Longrightarrow>
     next_handle t = next_handle s \<Longrightarrow> handles_allocated t = handles_allocated s"
  by (simp add: handles_allocated_def split: option.splits)

lemma centerModel_frame:
  "actions (centerModel s) = actions s"
  "activeAction (centerModel s) = activeAction s"
  "next_handle (centerModel s) = next_handle s"
  "store (centerModel s) = store s"
  by (simp_all add: centerModel_def Let_def split: option.splits transform.splits)

lemma handles_allocated_centerModel:
  "handles_allocated s \<Longrightarrow> handles_allocated (centerModel s)"
  using handles_allocated_cong [of "centerModel s" s] by (simp add: centerModel_frame)

lemma pafem_catch_frame:
  "actions (snd (pafem_catch e s)) = actions s"
  "activeAction (snd (pafem_catch e s)) = activeAction s"
  "next_handle (snd (pafem_catch e s)) = next_handle s"
  by (simp_all add: pafem_catch_def Let_def centerModel_frame
        split: option.splits transform.splits)

lemma handles_allocated_pafem_catch:
  "handles_allocated s \<Longrightarrow> handles_allocated (snd (pafem_catch e s))"
  using handles_allocated_cong [of "snd (pafem_catch e s)" s] by (simp add: pafem_catch_frame)

lemma register_clip_handles:
  assumes "\<forall>h \<in> set (map snd (actions s)). h < next_handle s"
  shows "\<forall>h \<in> set (map snd (actions (register_clip c s))). h < next_handle (register_clip c s)"
  using assms map_set_handles [of "name c" "next_handle s" "actions s"]
  by (fastforce simp: register_clip_fields)

lemma register_clips_handles:
  "\<forall>h \<in> set (map snd (actions s)). h < next_handle s \<Longrightarrow>
   \<forall>h \<in> set (map snd (actions (register_clips cs s))). h < next_handle (register_clips cs s)"
proof (induction cs arbitrary: s)
  case Nil
  then show ?case by simp
next
  case (Cons c cs)
  from Cons.IH [OF register_clip_handles [OF Cons.prems]] show ?case
    by (simp add: register_clips_Cons del: register_clips.simps)
qed

lemma register_clips_next_handle:
  "next_handle (register_clips cs s) = next_handle s + length cs"
  by (induction cs arbitrary: s)
     (simp_all add: register_clips_Cons register_clip_fields del: register_clips.simps(2))

lemma register_clips_activeAction:
  "activeAction (register_clips cs s) = activeAction s"
  by (induction cs arbitrary: s)
     (simp_all add: register_clips_Cons register_clip_def clipAction_def
        del: register_clips.simps(2))

lemma dispose_handles:
  "actions (snd (disposeCurrentModel s)) = [] \<or> actions (snd (disposeCurrentModel s)) = actions s"
  "activeAction (snd (disposeCurrentModel s)) = None
     \<or> activeAction (snd (disposeCurrentModel s)) = activeAction s"
  by (simp_all add: disposeCurrentModel_def Let_def split: option.splits)

lemma handles_allocated_dispose:
  "handles_allocated s \<Longrightarrow> handles_allocated (snd (disposeCurrentModel s))"
  using dispose_handles [of s] dispose_next_handle [of s]
  by (auto simp: handles_allocated_def split: option.splits)

lemma handles_allocated_loadModel:
  assumes "handles_allocated s"
  shows "handles_allocated (snd (loadModel url answer s))"
proof -
  obtain eo s0 where d: "disposeCurrentModel s = (eo, s0)"
    by (cases "disposeCurrentModel s")
  with handles_allocated_dispose [OF assms] have h0: "handles_allocated s0" by simp
  have reg: "handles_allocated (register_clips cs (s0\<lparr>requests := r, actions := [], mixer := mx\<rparr>))"
    for cs r mx
  proof -
    let ?s = "s0\<lparr>requests := r, actions := [], mixer := mx\<rparr>"
    have "\<forall>h \<in> set (map snd (actions ?s)). h < next_handle ?s" by simp
    from register_clips_handles [OF this, of cs] h0 show ?thesis
      by (auto simp: handles_allocated_def register_clips_activeAction
            register_clips_next_handle split: option.splits)
  qed
  show ?thesis
  proof (cases eo)
    case (Some e)
    with d h0 show ?thesis by (simp add: loadModel_def)
  next
    case None
    show ?thesis
    proof (cases answer)
      case (LoadFailed m)
      with d None h0 show ?thesis
        using handles_allocated_cong [of "s0\<lparr>requests := requests s0 @ [url]\<rparr>" s0]
        by (simp add: loadModel_def)
    next
      case (Loaded g)
      let ?s3 = "register_clips (animations g)
                  (s0\<lparr>requests := requests s0 @ [url], actions := [],
                       mixer := (if animations g \<noteq> [] then Some newMixer else None)\<rparr>)"
      have s3: "handles_allocated ?s3" by (rule reg)
      have "snd (loadModel url answer s) = ?s3 \<or>
            (\<exists>sc. snd (loadModel url answer s)
               = ?s3\<lparr>scene := Some sc, currentModel := Some (centerAndScale (gltf_scene g))\<rparr>)"
        using d None Loaded
        by (cases "animations g = []") (auto simp: loadModel_def Let_def split: option.splits)
      then show ?thesis
      proof
        assume "snd (loadModel url answer s) = ?s3"
        with s3 show ?thesis by simp
      next
        assume "\<exists>sc. snd (loadModel url answer s)
               = ?s3\<lparr>scene := Some sc, currentModel := Some (centerAndScale (gltf_scene g))\<rparr>"
        then obtain sc where "snd (loadModel url answer s)
               = ?s3\<lparr>scene := Some sc, currentModel := Some (centerAndScale (gltf_scene g))\<rparr>"
          by blast
        with s3 show ?thesis
          using handles_allocated_cong [of "?s3\<lparr>scene := Some sc,
              currentModel := Some (centerAndScale (gltf_scene g))\<rparr>" ?s3]
          by simp
      qed
    qed
  qed
qed

lemma handles_allocated_pafem_resume:
  assumes "handles_allocated s"
  shows "handles_allocated (snd (pafem_resume k f answer s))"
proof (cases "\<exists>u. fst (pafem_resume k f answer s) = Inr u")
  case True
  then obtain g c cs m where a: "answer = Loaded g" "animations g = c # cs" "currentModel s = Some m"
    by (auto simp: pafem_resume_resolved_iff)
  have "\<forall>h \<in> set (map snd (map_set (name c) (next_handle s) (actions s))).
          h < Suc (next_handle s)"
    using assms map_set_handles [of "name c" "next_handle s" "actions s"]
    by (fastforce simp: handles_allocated_def)
  with assms show ?thesis
    unfolding a pafem_resume_state [OF a(3) a(2)]
    by (auto simp: handles_allocated_def less_Suc_eq)
next
  case False
  have keep: "handles_allocated t" if "actions t = actions s"
    and "activeAction t = None \<or> activeAction t = activeAction s"
    and "next_handle t = next_handle s" for t
    using assms that by (auto simp: handles_allocated_def split: option.splits)
  have more: "handles_allocated t" if "actions t = actions s"
    and "activeAction t = Some (next_handle s)"
    and "next_handle t = Suc (next_handle s)" for t
    using assms that by (auto simp: handles_allocated_def less_Suc_eq split: option.splits)
  show ?thesis
  proof (cases answer)
    case (LoadFailed m)
    then show ?thesis
      by (simp add: pafem_resume_def handles_allocated_pafem_catch [OF assms])
  next
    case (Loaded g)
    show ?thesis
    proof (cases "animations g")
      case Nil
      with Loaded show ?thesis
        by (simp add: pafem_resume_def handles_allocated_pafem_catch [OF assms])
    next
      case (Cons c cs)
      from False Loaded Cons have nomodel: "currentModel s = None"
        by (auto simp: pafem_resume_resolved_iff)
      show ?thesis
      proof (cases "mixer s")
        case None
        have "\<exists>t. pafem_resume k f answer s = pafem_catch TypeError t
                \<and> actions t = actions s
                \<and> (activeAction t = None \<or> activeAction t = activeAction s)
                \<and> next_handle t = next_handle s"
          using Loaded Cons nomodel None
          by (cases "activeAction s") (fastforce simp: pafem_resume_def Let_def)+
        then obtain t where "pafem_resume k f answer s = pafem_catch TypeError t"
          and "handles_allocated t"
          using keep by blast
        then show ?thesis by (simp add: handles_allocated_pafem_catch)
      next
        case (Some mx)
        have "\<exists>t. pafem_resume k f answer s = pafem_catch TypeError t
                \<and> actions t = actions s
                \<and> activeAction t = Some (next_handle s)
                \<and> next_handle t = Suc (next_handle s)"
          using Loaded Cons nomodel Some
          by (cases "activeAction s") (fastforce simp: pafem_resume_def Let_def clipAction_def)+
        then obtain t where "pafem_resume k f answer s = pafem_catch TypeError t"
          and "handles_allocated t"
          using more by blast
        then show ?thesis by (simp add: handles_allocated_pafem_catch)
      qed
    qed
  qed
qed

lemma handles_allocated_passthrough:
  "handles_allocated (initialize w h s) = handles_allocated s"
  "handles_allocated (setBackground c s) = handles_allocated s"
  "handles_allocated (resize w h s) = handles_allocated s"
  "handles_allocated (setTimeScale v s) = handles_allocated s"
  by (auto simp: initialize_def setBackground_def resize_def setTimeScale_def
        handles_allocated_def split: option.splits)

lemma handles_allocated_pafem_begin:
  "handles_allocated s \<Longrightarrow> pafem_begin url f s = Inr (k, s1) \<Longrightarrow> handles_allocated s1"
  by (fastforce simp: pafem_begin_def handles_allocated_def split: option.splits)


text \<open>
  After \<open>loadModel\<close> on an asset with an identity root and a positive extent the model's
  largest extent is 1.5, so \<open>centerModel\<close> does not rescale it and a second call changes
  nothing.
\<close>

lemma loadModel_extent:
  assumes "loadModel url (Loaded g) s = (Inr m, s')"
      and "transform (gltf_scene g) = Transform vzero (setScalar 1)"
      and "0 < maxDimOf (getSize (setFromPoints (vertices (gltf_scene g))))"
  shows "currentModel s' = Some m" and "largest_extent m = Some (3 / 2)"
    and "centerModel (centerModel s') = centerModel s'"
proof -
  from loadModel_resolved [OF assms(1)]
  have m: "m = centerAndScale (gltf_scene g)" and c: "currentModel s' = Some m"
    by blast+
  from centerAndScale_box [OF assms(2,3)] obtain b where
    "worldBox (centerAndScale (gltf_scene g)) = Some b" "maxDimOf (getSize b) = 3 / 2"
    by blast
  then have e: "largest_extent m = Some (3 / 2)"
    by (simp add: largest_extent_def m)
  show "currentModel s' = Some m" by (rule c)
  show "largest_extent m = Some (3 / 2)" by (rule e)
  show "centerModel (centerModel s') = centerModel s'"
    by (rule centerModel_fixed_in_range [OF c e]) simp_all
qed


subsection \<open>resize\<close>

text \<open>
  C8. For every width, \<open>resize(width, 0)\<close> does not throw and does not divide by zero:
  the divisor \<open>Math.max(1, height)\<close> is at least 1 for every height (it is 1 for height
  0), and the aspect ratio is \<open>Math.max(1e-6, width)\<close>, never below the positive
  minimum \<open>1e-6\<close>. \<open>resize\<close> has no failing branch: with renderer and camera it stores
  that aspect, without them it returns the state as it is. Widths are real numbers.
\<close>

theorem resize_zero_height_clamped:
  "1 \<le> resize_divisor height
   \<and> resize_divisor 0 = 1
   \<and> resize_aspect width 0 = max (1 / 1000000) width
   \<and> 1 / 1000000 \<le> resize_aspect width height
   \<and> 0 < resize_aspect width 0
   \<and> (case (renderer s, camera s) of
        (Some r, Some c) \<Rightarrow>
          camera (resize width 0 s) = Some (c\<lparr>aspect := Some (max (1 / 1000000) width)\<rparr>)
      | _ \<Rightarrow> resize width 0 s = s)"
  by (simp add: resize_divisor_def resize_aspect_def resize_def less_max_iff_disj
           split: option.split)

end
